theory Spec2Isabelle
  imports Complex_Main "HOL-Library.AList" "HOL-Library.Log_Nat"
begin

section \<open>Exceptions, connections and pools\<close>

text \<open>
  A Python exception is a value: its class and the text that \<^verbatim>\<open>str(e)\<close> gives.
  Every \<^verbatim>\<open>raise\<close> of the source is an \<open>Inl\<close> branch of the model. The text of an
  \<open>AttributeError\<close> is abridged to the name of the missing attribute, that of a
  \<open>TypeError\<close> to the operation that refused its operands, and that of the
  \<open>OverflowError\<close> of a \<^verbatim>\<open>timedelta\<close> to the field that is out of range.
\<close>

datatype exn =
    ImproperlyConfigured string
  | KeyError string
  | AttributeError string
  | OperationalError string
  | TypeError string
  | ZeroDivisionError string
  | OverflowError string

text \<open>\<^verbatim>\<open>str(e)\<close>; a \<open>KeyError\<close> carries the \<^verbatim>\<open>repr\<close> of the missing key.\<close>

fun str :: "exn \<Rightarrow> string" where
  "str (ImproperlyConfigured m) = m"
| "str (KeyError r) = r"
| "str (AttributeError m) = m"
| "str (OperationalError m) = m"
| "str (TypeError m) = m"
| "str (ZeroDivisionError m) = m"
| "str (OverflowError m) = m"

definition repr_str :: "string \<Rightarrow> string" where
  "repr_str k = [CHR 0x27] @ k @ [CHR 0x27]"

text \<open>The test \<^verbatim>\<open>pat in s\<close> on Python strings.\<close>

fun str_contains :: "string \<Rightarrow> string \<Rightarrow> bool" where
  "str_contains pat [] = (pat = [])"
| "str_contains pat (c # cs) = (take (length pat) (c # cs) = pat \<or> str_contains pat cs)"

definition too_many_clients :: "exn \<Rightarrow> bool" where
  "too_many_clients e = str_contains ''too many clients already'' (str e)"

text \<open>
  A connection handle of the driver. \<open>closed\<close> is the attribute of that name, \<open>None\<close>
  when the object has no such attribute (\<^verbatim>\<open>hasattr(conn, 'closed')\<close> is false).
\<close>

record conn =
  conn_id :: nat
  closed :: "bool option"

text \<open>
  A pool object of the driver's pool library, with the attributes the wrapper reads.
  Its methods are calls into the library: the model records each call in the trace and
  takes its outcome from the environment.
\<close>

record pool =
  pool_id :: nat
  size :: int
  min_size :: int
  max_size :: int
  max_overflow :: int
  overflow :: int
  idle :: int
  busy :: int

type_synonym db_alias = "string option"

definition NO_DB_ALIAS :: db_alias where
  "NO_DB_ALIAS = Some ''__no_db__''"

text \<open>Truth value of an alias: \<^verbatim>\<open>None\<close> and the empty string are false.\<close>

fun alias_truthy :: "db_alias \<Rightarrow> bool" where
  "alias_truthy None = False"
| "alias_truthy (Some a) = (a \<noteq> [])"

fun repr_alias :: "db_alias \<Rightarrow> string" where
  "repr_alias None = ''None''"
| "repr_alias (Some a) = repr_str a"

section \<open>Python numbers\<close>

text \<open>
  A Python \<^verbatim>\<open>float\<close> is an IEEE 754 binary64 value: a finite value, kept as the rational
  it denotes (the two zeros are not told apart), an infinity (\<open>True\<close> for the negative
  one) or a NaN. Every operation rounds its exact result to the nearest such value, ties
  to the even significand.
\<close>

datatype pyfloat = Finite rat | Infinity bool | NaN

text \<open>Rounding to the nearest integer, ties to even.\<close>

definition round_half_even :: "rat \<Rightarrow> int" where
  "round_half_even x =
     (let f = \<lfloor>x\<rfloor>; d = x - of_int f
      in if d < 1 / 2 then f else if 1 / 2 < d then f + 1 else if even f then f else f + 1)"

text \<open>The exponent \<open>e\<close> with \<open>2 powi e \<le> x < 2 powi (e + 1)\<close>, for a positive \<open>x\<close>.\<close>

definition floor_log2 :: "rat \<Rightarrow> int" where
  "floor_log2 x =
     (case quotient_of x of
        (p, q) \<Rightarrow> (let d = bitlen p - bitlen q in if 2 powi d \<le> x then d else d - 1))"

text \<open>
  The binary64 value nearest to a rational: 53 significant bits, the exponent not below
  that of the subnormal numbers, and an infinity when the rounded value reaches
  \<open>2 powi 1024\<close>.
\<close>

definition to_double :: "rat \<Rightarrow> pyfloat" where
  "to_double x =
     (if x = 0 then Finite 0
      else
        (let e = max (floor_log2 \<bar>x\<bar>) (- 1022);
             ulp = 2 powi (e - 52);
             r = of_int (round_half_even (x / ulp)) * ulp
         in if 2 powi 1024 \<le> \<bar>r\<bar> then Infinity (x < 0) else Finite r))"

text \<open>\<^verbatim>\<open>a / b\<close> on two ints: the quotient, correctly rounded.\<close>

definition int_truediv :: "int \<Rightarrow> int \<Rightarrow> exn + pyfloat" where
  "int_truediv a b =
     (if b = 0 then Inl (ZeroDivisionError ''division by zero'')
      else case to_double (of_int a / of_int b) of
             Finite q \<Rightarrow> Inr (Finite q)
           | _ \<Rightarrow> Inl (OverflowError ''integer division result too large for a float''))"

text \<open>The conversion of an int to a float, and \<^verbatim>\<open>x * y\<close> on two floats.\<close>

definition float_of_int :: "int \<Rightarrow> exn + pyfloat" where
  "float_of_int n =
     (case to_double (of_int n) of
        Finite c \<Rightarrow> Inr (Finite c)
      | _ \<Rightarrow> Inl (OverflowError ''int too large to convert to float''))"

fun float_mul :: "pyfloat \<Rightarrow> pyfloat \<Rightarrow> pyfloat" where
  "float_mul (Finite a) (Finite b) = to_double (a * b)"
| "float_mul (Infinity s) (Finite b) = (if b = 0 then NaN else Infinity (s \<noteq> (b < 0)))"
| "float_mul (Finite a) (Infinity t) = (if a = 0 then NaN else Infinity ((a < 0) \<noteq> t))"
| "float_mul (Infinity s) (Infinity t) = Infinity (s \<noteq> t)"
| "float_mul _ _ = NaN"

text \<open>\<^verbatim>\<open>x * n\<close> on a float and an int: the int is converted first.\<close>

definition float_mul_int :: "pyfloat \<Rightarrow> int \<Rightarrow> exn + pyfloat" where
  "float_mul_int x n = (case float_of_int n of Inl e \<Rightarrow> Inl e | Inr c \<Rightarrow> Inr (float_mul x c))"

text \<open>A number that is an int or a float.\<close>

datatype pynum = IntNum int | FloatNum pyfloat

text \<open>
  The values of a per-alias settings dictionary. The dictionaries are written in two
  places only: \<^verbatim>\<open>__init__\<close> (lines 28 to 34) stores four ints of the configuration and
  \<^verbatim>\<open>datetime.now()\<close>, and the \<^verbatim>\<open>pool\<close> property (line 126) stores \<^verbatim>\<open>datetime.now()\<close>
  again. So a value is an int or a \<^verbatim>\<open>datetime\<close>, kept as seconds on the clock; no float
  is ever stored, and the arithmetic of the sweep on these values is exact.
\<close>

datatype sval = PInt int | PDatetime rat

text \<open>\<^verbatim>\<open>x * y\<close> on two stored values: ints multiply exactly, a \<^verbatim>\<open>datetime\<close> has no product.\<close>

fun py_mul :: "sval \<Rightarrow> sval \<Rightarrow> exn + int" where
  "py_mul (PInt a) (PInt b) = Inr (a * b)"
| "py_mul _ _ = Inl (TypeError ''*'')"

text \<open>\<^verbatim>\<open>now - x\<close> for the \<^verbatim>\<open>datetime\<close> \<open>now\<close>: a duration in seconds.\<close>

fun datetime_sub :: "rat \<Rightarrow> sval \<Rightarrow> exn + rat" where
  "datetime_sub now (PDatetime t) = Inr (now - t)"
| "datetime_sub now (PInt n) = Inl (TypeError ''-'')"

text \<open>\<^verbatim>\<open>timedelta(seconds=x)\<close>: a duration of at most 999999999 days in magnitude.\<close>

fun timedelta_seconds :: "sval \<Rightarrow> exn + rat" where
  "timedelta_seconds (PInt n) =
     (if - 86399999913600 \<le> n \<and> n \<le> 86399999999999 then Inr (of_int n)
      else Inl (OverflowError ''days''))"
| "timedelta_seconds (PDatetime t) = Inl (TypeError ''timedelta'')"

section \<open>The wrappers, the class-level state and the environment\<close>

text \<open>
  A per-alias settings dictionary of \<^verbatim>\<open>_pool_settings\<close>: string keys in insertion
  order.
\<close>

type_synonym settings = "(string \<times> sval) list"

datatype log =
    RetryWarning exn nat nat
  | MonitorError exn
  | NearingCapacity db_alias
  | ResizeFailed db_alias exn
  | MaxAge db_alias
  | AgedCloseError db_alias exn
  | ReturnError exn
  | CleanupError exn

text \<open>
  The calls that leave the wrapper, as the trace records them. A pool is named by its
  \<open>pool_id\<close>. \<open>NewPool\<close> carries the alias, \<^verbatim>\<open>min_size\<close>, \<^verbatim>\<open>max_size\<close>,
  \<^verbatim>\<open>max_overflow\<close>, \<^verbatim>\<open>timeout\<close>, whether a \<^verbatim>\<open>check\<close> is installed and the extra
  keyword arguments; \<open>NewThreadedPool\<close> the alias, \<^verbatim>\<open>minconn\<close> and \<^verbatim>\<open>maxconn\<close>.
\<close>

datatype event =
    Connect
  | Sleep rat
  | Log log
  | StartMonitor
  | GetConnectionParams
  | NewPool db_alias int int int int bool "(string \<times> int) list"
  | NewThreadedPool db_alias int int
  | GetConn nat
  | PutConn nat conn bool
  | ClosePool nat
  | Resize nat sval
  | ConnClose conn
  | Probe conn
  | SuperClose

datatype call =
    CConnect | CParams | CNewPool | CGetConn | CPutConn | CClosePool | CResize
  | CConnClose | CProbe | CSuperClose | COther

fun call_of :: "event \<Rightarrow> call" where
  "call_of Connect = CConnect"
| "call_of GetConnectionParams = CParams"
| "call_of (NewPool a mn mx ov t c kw) = CNewPool"
| "call_of (NewThreadedPool a mn mx) = CNewPool"
| "call_of (GetConn p) = CGetConn"
| "call_of (PutConn p c b) = CPutConn"
| "call_of (ClosePool p) = CClosePool"
| "call_of (Resize p n) = CResize"
| "call_of (ConnClose c) = CConnClose"
| "call_of (Probe c) = CProbe"
| "call_of SuperClose = CSuperClose"
| "call_of _ = COther"

definition calls :: "call \<Rightarrow> event list \<Rightarrow> nat" where
  "calls k tr = length (filter (\<lambda>ev. call_of ev = k) tr)"

fun sleeps :: "event list \<Rightarrow> rat list" where
  "sleeps [] = []"
| "sleeps (Sleep d # es) = d # sleeps es"
| "sleeps (_ # es) = sleeps es"

text \<open>
  \<^verbatim>\<open>settings_dict\<close>, the entries the wrapper of base.py reads; \<open>None\<close> is an absent key.
  \<open>OPTIONS_pool\<close> is \<^verbatim>\<open>OPTIONS["pool"]\<close>: \<open>None\<close> when it is absent or false (also the
  empty dictionary), \<open>Some []\<close> when it is \<^verbatim>\<open>True\<close>, \<open>Some kw\<close> for a non-empty
  dictionary of keyword arguments.
\<close>

record settings_dict =
  MIN_CONNECTIONS :: "int option"
  MAX_CONNECTIONS :: "int option"
  MAX_OVERFLOW :: "int option"
  POOL_TIMEOUT :: "int option"
  POOL_MAX_CONN_AGE :: "int option"
  POOL_RECYCLE_THRESHOLD :: "rat option"
  CONN_MAX_AGE :: "int option"
  CONN_HEALTH_CHECKS :: "bool option"
  OPTIONS_pool :: "(string \<times> int) list option"

text \<open>The wrapper instance of base.py.\<close>

record wrapper =
  settings_dict :: settings_dict
  wrapper_alias :: db_alias
  min_connections :: int
  max_connections :: int
  wrapper_max_overflow :: int
  timeout :: int
  max_conn_age :: int
  recycle_threshold :: rat
  connection :: "conn option"

text \<open>The wrapper instance of database_wrapper.py (the psycopg2 variant).\<close>

record tp_wrapper =
  tp_alias :: db_alias
  tp_min_connections :: int
  tp_max_connections :: int
  tp_max_overflow :: int
  tp_pool :: "pool option"
  tp_connection :: "conn option"

text \<open>
  The state shared by all wrappers: the class attributes \<^verbatim>\<open>_connection_pools\<close>,
  \<^verbatim>\<open>_pool_settings\<close> (insertion-ordered, the monitor iterates over it) and
  \<^verbatim>\<open>_pool_monitor\<close> of base.py, the class attribute \<^verbatim>\<open>_pools\<close> of database_wrapper.py,
  the wall clock, and the trace of calls that leave the wrappers.
\<close>

record world =
  connection_pools :: "db_alias \<rightharpoonup> pool"
  pool_settings :: "(db_alias \<times> settings) list"
  pool_monitor :: bool
  pools :: "db_alias \<rightharpoonup> pool"
  clock :: rat
  trace :: "event list"

text \<open>
  The environment answers the calls that leave the wrapper. The \<open>n\<close>-th call of a kind
  (counted from 0 over the trace) gets the \<open>n\<close>-th answer of that kind: \<open>Inl e\<close> or
  \<open>Some e\<close> when the call raises \<open>e\<close>.
\<close>

record env =
  connect_out :: "nat \<Rightarrow> exn + conn"
  psycopg_pool_installed :: bool
  connection_params_out :: "nat \<Rightarrow> exn option"
  new_pool_out :: "nat \<Rightarrow> exn + pool"
  getconn_out :: "nat \<Rightarrow> exn + conn"
  putconn_out :: "nat \<Rightarrow> exn option"
  close_pool_out :: "nat \<Rightarrow> exn option"
  resize_out :: "nat \<Rightarrow> exn option"
  conn_close_out :: "nat \<Rightarrow> exn option"
  probe_out :: "nat \<Rightarrow> exn option"
  super_close_out :: "nat \<Rightarrow> exn option"

definition emit :: "event \<Rightarrow> world \<Rightarrow> world" where
  "emit ev s = s\<lparr>trace := trace s @ [ev]\<rparr>"

text \<open>\<^verbatim>\<open>time.sleep(d)\<close>: the call is recorded and the clock moves on.\<close>

definition sleep :: "rat \<Rightarrow> world \<Rightarrow> world" where
  "sleep d s = (emit (Sleep d) s)\<lparr>clock := clock s + d\<rparr>"

text \<open>\<^verbatim>\<open>super().get_new_connection(conn_params)\<close>: the driver opens a raw connection.\<close>

definition super_get_new_connection :: "env \<Rightarrow> world \<Rightarrow> (exn + conn) \<times> world" where
  "super_get_new_connection env s =
     (connect_out env (calls CConnect (trace s)), emit Connect s)"

text \<open>The methods of a pool object and of a connection.\<close>

definition getconn :: "env \<Rightarrow> pool \<Rightarrow> world \<Rightarrow> (exn + conn) \<times> world" where
  "getconn env p s = (getconn_out env (calls CGetConn (trace s)), emit (GetConn (pool_id p)) s)"

definition putconn :: "env \<Rightarrow> pool \<Rightarrow> conn \<Rightarrow> bool \<Rightarrow> world \<Rightarrow> exn option \<times> world" where
  "putconn env p c cl s =
     (putconn_out env (calls CPutConn (trace s)), emit (PutConn (pool_id p) c cl) s)"

definition close_pool :: "env \<Rightarrow> pool \<Rightarrow> world \<Rightarrow> exn option \<times> world" where
  "close_pool env p s =
     (close_pool_out env (calls CClosePool (trace s)), emit (ClosePool (pool_id p)) s)"

definition resize :: "env \<Rightarrow> pool \<Rightarrow> sval \<Rightarrow> world \<Rightarrow> exn option \<times> world" where
  "resize env p n s = (resize_out env (calls CResize (trace s)), emit (Resize (pool_id p) n) s)"

definition conn_close :: "env \<Rightarrow> conn \<Rightarrow> world \<Rightarrow> exn option \<times> world" where
  "conn_close env c s = (conn_close_out env (calls CConnClose (trace s)), emit (ConnClose c) s)"

text \<open>\<^verbatim>\<open>with connection.cursor() as cursor: cursor.execute("SELECT 1")\<close>\<close>

definition probe :: "env \<Rightarrow> conn \<Rightarrow> world \<Rightarrow> exn option \<times> world" where
  "probe env c s = (probe_out env (calls CProbe (trace s)), emit (Probe c) s)"

definition get_connection_params :: "env \<Rightarrow> world \<Rightarrow> exn option \<times> world" where
  "get_connection_params env s =
     (connection_params_out env (calls CParams (trace s)), emit GetConnectionParams s)"

section \<open>Opening a connection without a pool: bounded retry with backoff\<close>

definition max_retries :: nat where
  "max_retries = 10"

definition initial_retry_delay :: rat where
  "initial_retry_delay = 1 / 100"

text \<open>
  The \<^verbatim>\<open>while True\<close> loop of \<^verbatim>\<open>get_new_connection\<close> (base.py, lines 137 to 151), with
  the loop variables \<^verbatim>\<open>retry_count\<close> and \<^verbatim>\<open>retry_delay\<close> as arguments. The delay is a
  binary float in the source; doubling a float is exact, so the delays are the initial
  one times a power of two, and the model keeps them as rationals.
\<close>

function retry_loop :: "env \<Rightarrow> nat \<Rightarrow> rat \<Rightarrow> world \<Rightarrow> (exn + conn) \<times> world" where
  "retry_loop env retry_count retry_delay s =
     (case super_get_new_connection env s of
        (Inr c, s1) \<Rightarrow> (Inr c, s1)
      | (Inl e, s1) \<Rightarrow>
          if too_many_clients e \<and> retry_count < max_retries
          then retry_loop env (retry_count + 1) (retry_delay * 2)
                 (sleep retry_delay (emit (Log (RetryWarning e (retry_count + 1) max_retries)) s1))
          else (Inl e, s1))"
  by pat_completeness auto
termination
  by (relation "measure (\<lambda>(env, retry_count, retry_delay, s). max_retries - retry_count)") auto

declare retry_loop.simps [simp del]

text \<open>An answer of the driver that the loop retries on.\<close>

definition transient_failure :: "exn + conn \<Rightarrow> bool" where
  "transient_failure r = (case r of Inl e \<Rightarrow> too_many_clients e | Inr c \<Rightarrow> False)"

section \<open>The pool of an alias\<close>

text \<open>
  \<^verbatim>\<open>ConnectionPool(kwargs=..., open=True, min_size=..., max_size=..., ...)\<close>: the
  constructor of the pool library, called with the wrapper's attributes.
\<close>

definition ConnectionPool :: "env \<Rightarrow> wrapper \<Rightarrow> world \<Rightarrow> (exn + pool) \<times> world" where
  "ConnectionPool env w s =
     (new_pool_out env (calls CNewPool (trace s)),
      emit (NewPool (wrapper_alias w) (min_connections w) (max_connections w)
              (wrapper_max_overflow w) (timeout w)
              (case CONN_HEALTH_CHECKS (settings_dict w) of None \<Rightarrow> True | Some b \<Rightarrow> b)
              (case OPTIONS_pool (settings_dict w) of None \<Rightarrow> [] | Some kw \<Rightarrow> kw)) s)"

definition pooling_persistent_msg :: string where
  "pooling_persistent_msg =
     ''Pooling doesn'' @ [CHR 0x27] @ ''t support persistent connections.''"

definition psycopg_pool_msg :: string where
  "psycopg_pool_msg =
     ''Error loading psycopg_pool module.'' @ [CHR 0x0A] @ ''Did you install psycopg[pool]?''"

text \<open>
  The property \<^verbatim>\<open>pool\<close> (base.py, lines 85 to 128). The result is \<open>Inr None\<close> when
  pooling is off for the wrapper, \<open>Inr (Some p)\<close> for the pool of the alias, \<open>Inl e\<close>
  when the access raises.
\<close>

definition pool :: "env \<Rightarrow> wrapper \<Rightarrow> world \<Rightarrow> (exn + pool option) \<times> world" where
  "pool env w s =
     (if wrapper_alias w = NO_DB_ALIAS \<or> OPTIONS_pool (settings_dict w) = None
      then (Inr None, s)
      else if connection_pools s (wrapper_alias w) = None then
        (if (case CONN_MAX_AGE (settings_dict w) of None \<Rightarrow> 0 | Some a \<Rightarrow> a) \<noteq> 0
         then (Inl (ImproperlyConfigured pooling_persistent_msg), s)
         else if \<not> psycopg_pool_installed env
         then (Inl (ImproperlyConfigured psycopg_pool_msg), s)
         else
           (case get_connection_params env s of
              (Some e, s1) \<Rightarrow> (Inl e, s1)
            | (None, s1) \<Rightarrow>
                (case ConnectionPool env w s1 of
                   (Inl e, s2) \<Rightarrow> (Inl e, s2)
                 | (Inr p, s2) \<Rightarrow>
                     (let s3 = s2\<lparr>connection_pools := (connection_pools s2)(wrapper_alias w \<mapsto> p)\<rparr>
                      in case map_of (pool_settings s3) (wrapper_alias w) of
                           None \<Rightarrow> (Inl (KeyError (repr_alias (wrapper_alias w))), s3)
                         | Some st \<Rightarrow>
                             (Inr (Some p),
                              s3\<lparr>pool_settings :=
                                    AList.update (wrapper_alias w)
                                      (AList.update ''created_at'' (PDatetime (clock s3)) st)
                                      (pool_settings s3)\<rparr>)))))
      else (Inr (connection_pools s (wrapper_alias w)), s))"

text \<open>\<^verbatim>\<open>self.pool.getconn()\<close> and \<^verbatim>\<open>self.pool.putconn(conn, close=cl)\<close>: a pool access, then
  the method; on \<^verbatim>\<open>None\<close> the attribute lookup raises.\<close>

definition pool_getconn :: "env \<Rightarrow> wrapper \<Rightarrow> world \<Rightarrow> (exn + conn) \<times> world" where
  "pool_getconn env w s =
     (case pool env w s of
        (Inl e, s1) \<Rightarrow> (Inl e, s1)
      | (Inr None, s1) \<Rightarrow> (Inl (AttributeError ''getconn''), s1)
      | (Inr (Some p), s1) \<Rightarrow> getconn env p s1)"

definition pool_putconn :: "env \<Rightarrow> wrapper \<Rightarrow> conn \<Rightarrow> bool \<Rightarrow> world \<Rightarrow> exn option \<times> world" where
  "pool_putconn env w c cl s =
     (case pool env w s of
        (Inl e, s1) \<Rightarrow> (Some e, s1)
      | (Inr None, s1) \<Rightarrow> (Some (AttributeError ''putconn''), s1)
      | (Inr (Some p), s1) \<Rightarrow> putconn env p c cl s1)"

section \<open>Acquiring a connection (base.py)\<close>

text \<open>The body of the \<^verbatim>\<open>try\<close> of \<^verbatim>\<open>get_new_connection\<close> (lines 154 to 161).\<close>

definition acquire_checked :: "env \<Rightarrow> wrapper \<Rightarrow> world \<Rightarrow> (exn + conn) \<times> world" where
  "acquire_checked env w s =
     (case pool_getconn env w s of
        (Inl e, s1) \<Rightarrow> (Inl e, s1)
      | (Inr c, s1) \<Rightarrow>
          if closed c = Some False then (Inr c, s1)
          else
            (case pool_putconn env w c True s1 of
               (Some e, s2) \<Rightarrow> (Inl e, s2)
             | (None, s2) \<Rightarrow> pool_getconn env w s2))"

text \<open>The body of the outer \<^verbatim>\<open>try\<close> of \<^verbatim>\<open>_cleanup_connections\<close> (lines 200 to 215); the
  error of \<^verbatim>\<open>current_pool.close()\<close> is dropped by the bare \<^verbatim>\<open>except\<close>.\<close>

definition cleanup_body :: "env \<Rightarrow> wrapper \<Rightarrow> world \<Rightarrow> exn option \<times> world" where
  "cleanup_body env w s =
     (case pool env w s of
        (Inl e, s1) \<Rightarrow> (Some e, s1)
      | (Inr current_pool, s1) \<Rightarrow>
          (let s2 = s1\<lparr>connection_pools := (connection_pools s1)(wrapper_alias w := None)\<rparr>;
               s3 = (case current_pool of None \<Rightarrow> s2 | Some p \<Rightarrow> snd (close_pool env p s2));
               s4 = sleep (1 / 2) s3
           in case pool env w s4 of
                (Inl e, s5) \<Rightarrow> (Some e, s5)
              | (Inr _, s5) \<Rightarrow> (None, s5)))"

definition cleanup_connections :: "env \<Rightarrow> wrapper \<Rightarrow> world \<Rightarrow> (exn + bool) \<times> world" where
  "cleanup_connections env w s =
     (case pool env w s of
        (Inl e, s1) \<Rightarrow> (Inl e, s1)
      | (Inr None, s1) \<Rightarrow> (Inr False, s1)
      | (Inr (Some _), s1) \<Rightarrow>
          (case cleanup_body env w s1 of
             (Some e, s2) \<Rightarrow> (Inr False, emit (Log (CleanupError e)) s2)
           | (None, s2) \<Rightarrow> (Inr True, s2)))"

text \<open>The handler of \<^verbatim>\<open>get_new_connection\<close> (lines 162 to 168), entered with the error \<open>e\<close>.\<close>

definition acquire_handler :: "env \<Rightarrow> wrapper \<Rightarrow> exn \<Rightarrow> world \<Rightarrow> (exn + conn) \<times> world" where
  "acquire_handler env w e s =
     (if too_many_clients e then
        (case cleanup_connections env w s of
           (Inl e', s1) \<Rightarrow> (Inl e', s1)
         | (Inr _, s1) \<Rightarrow> pool_getconn env w s1)
      else (Inl e, s))"

definition get_new_connection :: "env \<Rightarrow> wrapper \<Rightarrow> world \<Rightarrow> (exn + conn) \<times> world" where
  "get_new_connection env w s =
     (case pool env w s of
        (Inl e, s1) \<Rightarrow> (Inl e, s1)
      | (Inr None, s1) \<Rightarrow> retry_loop env 0 initial_retry_delay s1
      | (Inr (Some _), s1) \<Rightarrow>
          (case acquire_checked env w s1 of
             (Inr c, s2) \<Rightarrow> (Inr c, s2)
           | (Inl e, s2) \<Rightarrow> acquire_handler env w e s2))"

section \<open>Returning a connection (base.py)\<close>

text \<open>
  \<^verbatim>\<open>super().close()\<close> is the framework's own close; the model records the call and its
  outcome and leaves the wrapper as it is.
\<close>

definition super_close :: "env \<Rightarrow> wrapper \<Rightarrow> world \<Rightarrow> (exn option \<times> wrapper) \<times> world" where
  "super_close env w s =
     ((super_close_out env (calls CSuperClose (trace s)), w), emit SuperClose s)"

text \<open>The body of the \<^verbatim>\<open>try\<close> of \<^verbatim>\<open>close\<close> (lines 176 to 182), up to the assignments
  to \<^verbatim>\<open>self.connection\<close>, for the connection \<open>c\<close> the wrapper holds.\<close>

definition close_try :: "env \<Rightarrow> wrapper \<Rightarrow> conn \<Rightarrow> world \<Rightarrow> exn option \<times> world" where
  "close_try env w c s =
     (case closed c of
        None \<Rightarrow> (Some (AttributeError ''closed''), s)
      | Some True \<Rightarrow> (None, s)
      | Some False \<Rightarrow> pool_putconn env w c False s)"

text \<open>The handler of \<^verbatim>\<open>close\<close> (lines 183 to 191): log, then close the connection if it
  is not closed, dropping every error of that.\<close>

definition close_handler :: "env \<Rightarrow> conn \<Rightarrow> exn \<Rightarrow> world \<Rightarrow> world" where
  "close_handler env c e s =
     (let s1 = emit (Log (ReturnError e)) s
      in if closed c = Some False then snd (conn_close env c s1) else s1)"

definition close :: "env \<Rightarrow> wrapper \<Rightarrow> world \<Rightarrow> (exn option \<times> wrapper) \<times> world" where
  "close env w s =
     (case connection w of
        None \<Rightarrow> super_close env w s
      | Some c \<Rightarrow>
          (case pool env w s of
             (Inl e, s1) \<Rightarrow> ((Some e, w), s1)
           | (Inr None, s1) \<Rightarrow> super_close env w s1
           | (Inr (Some _), s1) \<Rightarrow>
               (case close_try env w c s1 of
                  (None, s2) \<Rightarrow> ((None, w\<lparr>connection := None\<rparr>), s2)
                | (Some e, s2) \<Rightarrow>
                    ((None, w\<lparr>connection := None\<rparr>), close_handler env c e s2))))"

section \<open>The status report (base.py)\<close>

record active_status =
  st_size :: int
  st_min_size :: int
  st_max_size :: int
  st_max_overflow :: int
  st_overflow :: int
  st_idle :: int
  st_busy :: int
  st_usage_percent :: pynum
  st_created_at :: "sval option"

datatype status = Disabled | Active active_status

text \<open>Sequencing of two steps that may raise.\<close>

definition bind ::
  "(world \<Rightarrow> (exn + 'a) \<times> world) \<Rightarrow> ('a \<Rightarrow> world \<Rightarrow> (exn + 'b) \<times> world)
     \<Rightarrow> world \<Rightarrow> (exn + 'b) \<times> world" where
  "bind m f s = (case m s of (Inl e, s1) \<Rightarrow> (Inl e, s1) | (Inr x, s1) \<Rightarrow> f x s1)"

text \<open>\<^verbatim>\<open>self.pool.attr\<close>: a pool access, then the attribute.\<close>

definition pool_attr :: "env \<Rightarrow> wrapper \<Rightarrow> (pool \<Rightarrow> 'a) \<Rightarrow> world \<Rightarrow> (exn + 'a) \<times> world" where
  "pool_attr env w attr s =
     (case pool env w s of
        (Inl e, s1) \<Rightarrow> (Inl e, s1)
      | (Inr None, s1) \<Rightarrow> (Inl (AttributeError ''NoneType''), s1)
      | (Inr (Some p), s1) \<Rightarrow> (Inr (attr p), s1))"

text \<open>The conditional expression of line 261: the float
  \<^verbatim>\<open>self.pool.busy / self.pool.max_size * 100\<close> when \<^verbatim>\<open>max_size\<close> is positive, the int 0
  otherwise.\<close>

definition usage_percent :: "env \<Rightarrow> wrapper \<Rightarrow> world \<Rightarrow> (exn + pynum) \<times> world" where
  "usage_percent env w =
     bind (pool_attr env w max_size) (\<lambda>mx.
       if mx > 0 then
         bind (pool_attr env w busy) (\<lambda>b.
         bind (pool_attr env w max_size) (\<lambda>mx'.
           Pair (case int_truediv b mx' of
                   Inl e \<Rightarrow> Inl e
                 | Inr q \<Rightarrow>
                     (case float_mul_int q 100 of
                        Inl e \<Rightarrow> Inl e
                      | Inr u \<Rightarrow> Inr (FloatNum u)))))
       else Pair (Inr (IntNum 0)))"

definition get_pool_status :: "env \<Rightarrow> wrapper \<Rightarrow> world \<Rightarrow> (exn + status) \<times> world" where
  "get_pool_status env w =
     bind (pool env w) (\<lambda>p0.
       if p0 = None then Pair (Inr Disabled)
       else
         bind (pool_attr env w size) (\<lambda>v_size.
         bind (pool_attr env w min_size) (\<lambda>v_min_size.
         bind (pool_attr env w max_size) (\<lambda>v_max_size.
         bind (pool_attr env w max_overflow) (\<lambda>v_max_overflow.
         bind (pool_attr env w overflow) (\<lambda>v_overflow.
         bind (pool_attr env w idle) (\<lambda>v_idle.
         bind (pool_attr env w busy) (\<lambda>v_busy.
         bind (usage_percent env w) (\<lambda>v_usage. (\<lambda>s.
           (Inr (Active
              \<lparr>st_size = v_size, st_min_size = v_min_size, st_max_size = v_max_size,
               st_max_overflow = v_max_overflow, st_overflow = v_overflow, st_idle = v_idle,
               st_busy = v_busy, st_usage_percent = v_usage,
               st_created_at =
                 (case map_of (pool_settings s) (wrapper_alias w) of
                    None \<Rightarrow> None
                  | Some st \<Rightarrow> map_of st ''created_at'')\<rparr>), s)))))))))))"

section \<open>Construction of a wrapper and the monitor (base.py)\<close>

definition get_default :: "'a option \<Rightarrow> 'a \<Rightarrow> 'a" where
  "get_default v d = (case v of None \<Rightarrow> d | Some x \<Rightarrow> x)"

text \<open>\<^verbatim>\<open>_start_pool_monitor\<close>: the thread is created and started; what it runs is
  \<open>monitor_pools\<close> below.\<close>

definition start_pool_monitor :: "world \<Rightarrow> world" where
  "start_pool_monitor s = emit StartMonitor (s\<lparr>pool_monitor := True\<rparr>)"

text \<open>\<^verbatim>\<open>__init__\<close> (lines 17 to 38): the new wrapper and the state after it.\<close>

definition init :: "settings_dict \<Rightarrow> db_alias \<Rightarrow> world \<Rightarrow> wrapper \<times> world" where
  "init sd a s =
     (let w = \<lparr>settings_dict = sd, wrapper_alias = a,
                min_connections = get_default (MIN_CONNECTIONS sd) 20,
                max_connections = get_default (MAX_CONNECTIONS sd) 100,
                wrapper_max_overflow = get_default (MAX_OVERFLOW sd) 10,
                timeout = get_default (POOL_TIMEOUT sd) 3000,
                max_conn_age = get_default (POOL_MAX_CONN_AGE sd) 1800,
                recycle_threshold = get_default (POOL_RECYCLE_THRESHOLD sd) (4 / 5),
                connection = None\<rparr>
      in if alias_truthy a \<and> a \<noteq> NO_DB_ALIAS then
           (let s1 = s\<lparr>pool_settings :=
                        AList.update a
                          [(''min_connections'', PInt (min_connections w)),
                           (''max_connections'', PInt (max_connections w)),
                           (''max_overflow'', PInt (wrapper_max_overflow w)),
                           (''timeout'', PInt (timeout w)),
                           (''created_at'', PDatetime (clock s))]
                          (pool_settings s)\<rparr>
            in (w, if \<not> pool_monitor s1 then start_pool_monitor s1 else s1))
         else (w, s))"

text \<open>\<^verbatim>\<open>d[k]\<close> on a settings dictionary.\<close>

definition getitem :: "settings \<Rightarrow> string \<Rightarrow> exn + sval" where
  "getitem st k = (case map_of st k of None \<Rightarrow> Inl (KeyError (repr_str k)) | Some v \<Rightarrow> Inr v)"

text \<open>The response to an overloaded pool (lines 69 to 73).\<close>

definition recycle :: "env \<Rightarrow> db_alias \<Rightarrow> settings \<Rightarrow> pool \<Rightarrow> world \<Rightarrow> world" where
  "recycle env a st p s =
     (let s1 = emit (Log (NearingCapacity a)) s
      in case getitem st ''min_connections'' of
           Inl e \<Rightarrow> emit (Log (ResizeFailed a e)) s1
         | Inr mn \<Rightarrow>
             (case resize env p mn s1 of
                (Some e, s2) \<Rightarrow> emit (Log (ResizeFailed a e)) s2
              | (None, s2) \<Rightarrow> s2))"

text \<open>The age check (lines 76 to 83); the subtraction, the \<^verbatim>\<open>timedelta\<close> and the
  comparison are outside the \<^verbatim>\<open>try\<close>, so their errors leave the sweep.\<close>

definition retire ::
  "env \<Rightarrow> rat \<Rightarrow> db_alias \<Rightarrow> settings \<Rightarrow> pool \<Rightarrow> world \<Rightarrow> exn option \<times> world" where
  "retire env now a st p s =
     (case datetime_sub now (get_default (map_of st ''created_at'') (PDatetime now)) of
        Inl e \<Rightarrow> (Some e, s)
      | Inr age \<Rightarrow>
          (case timedelta_seconds (get_default (map_of st ''max_conn_age'') (PInt 1800)) of
             Inl e \<Rightarrow> (Some e, s)
           | Inr limit \<Rightarrow>
               if age > limit then
                 (let s1 = emit (Log (MaxAge a)) s
                  in case close_pool env p s1 of
                       (Some e, s2) \<Rightarrow> (None, emit (Log (AgedCloseError a e)) s2)
                     | (None, s2) \<Rightarrow>
                         (None, s2\<lparr>connection_pools := (connection_pools s2)(a := None)\<rparr>))
               else (None, s)))"

text \<open>The body of the \<^verbatim>\<open>for\<close> loop of \<^verbatim>\<open>_check_all_pools\<close> for one item
  \<^verbatim>\<open>(alias, settings)\<close>; \<open>Some e\<close> when it raises.\<close>

definition check_pool :: "env \<Rightarrow> rat \<Rightarrow> db_alias \<Rightarrow> settings \<Rightarrow> world \<Rightarrow> exn option \<times> world" where
  "check_pool env now a st s =
     (case connection_pools s a of
        None \<Rightarrow> (None, s)
      | Some p \<Rightarrow>
          (case getitem st ''max_connections'' of
             Inl e \<Rightarrow> (Some e, s)
           | Inr mx \<Rightarrow>
               (case (case map_of (pool_settings s) a of
                        None \<Rightarrow> Inl (KeyError (repr_alias a))
                      | Some st' \<Rightarrow> getitem st' ''recycle_threshold'') of
                  Inl e \<Rightarrow> (Some e, s)
                | Inr thr \<Rightarrow>
                    (case py_mul mx thr of
                       Inl e \<Rightarrow> (Some e, s)
                     | Inr limit \<Rightarrow>
                         retire env now a st p
                           (if busy p > limit then recycle env a st p s else s)))))"

fun check_items ::
  "env \<Rightarrow> rat \<Rightarrow> (db_alias \<times> settings) list \<Rightarrow> world \<Rightarrow> exn option \<times> world" where
  "check_items env now [] s = (None, s)"
| "check_items env now ((a, st) # items) s =
     (case check_pool env now a st s of
        (Some e, s1) \<Rightarrow> (Some e, s1)
      | (None, s1) \<Rightarrow> check_items env now items s1)"

definition check_all_pools :: "env \<Rightarrow> world \<Rightarrow> exn option \<times> world" where
  "check_all_pools env s = check_items env (clock s) (pool_settings s) s"

text \<open>One turn of the \<^verbatim>\<open>while True\<close> loop of \<^verbatim>\<open>monitor_pools\<close> (lines 45 to 50), and
  the loop cut off after \<open>n\<close> turns: it has no exit of its own.\<close>

definition monitor_turn :: "env \<Rightarrow> world \<Rightarrow> exn option \<times> world" where
  "monitor_turn env s =
     (case check_all_pools env s of
        (Some e, s1) \<Rightarrow> (None, sleep 300 (emit (Log (MonitorError e)) s1))
      | (None, s1) \<Rightarrow> (None, sleep 300 s1))"

fun monitor_pools :: "env \<Rightarrow> nat \<Rightarrow> world \<Rightarrow> exn option \<times> world" where
  "monitor_pools env 0 s = (None, s)"
| "monitor_pools env (Suc n) s =
     (case monitor_turn env s of
        (Some e, s1) \<Rightarrow> (Some e, s1)
      | (None, s1) \<Rightarrow> monitor_pools env n s1)"

section \<open>Acquiring a connection (database_wrapper.py)\<close>

text \<open>\<^verbatim>\<open>pool.ThreadedConnectionPool(minconn=..., maxconn=..., **conn_params)\<close>\<close>

definition ThreadedConnectionPool :: "env \<Rightarrow> tp_wrapper \<Rightarrow> world \<Rightarrow> (exn + pool) \<times> world" where
  "ThreadedConnectionPool env w s =
     (new_pool_out env (calls CNewPool (trace s)),
      emit (NewThreadedPool (tp_alias w) (tp_min_connections w)
              (tp_max_connections w + tp_max_overflow w)) s)"

text \<open>The block under the lock (lines 21 to 29): the pool of the alias, created when the
  alias has none.\<close>

definition tp_lookup_pool :: "env \<Rightarrow> tp_wrapper \<Rightarrow> world \<Rightarrow> (exn + pool) \<times> world" where
  "tp_lookup_pool env w s =
     (case pools s (tp_alias w) of
        Some p \<Rightarrow> (Inr p, s)
      | None \<Rightarrow>
          (case ThreadedConnectionPool env w s of
             (Inl e, s1) \<Rightarrow> (Inl e, s1)
           | (Inr p, s1) \<Rightarrow> (Inr p, s1\<lparr>pools := (pools s1)(tp_alias w \<mapsto> p)\<rparr>)))"

definition tp_get_new_connection ::
  "env \<Rightarrow> tp_wrapper \<Rightarrow> world \<Rightarrow> ((exn + conn) \<times> tp_wrapper) \<times> world" where
  "tp_get_new_connection env w s =
     (case tp_lookup_pool env w s of
        (Inl e, s1) \<Rightarrow> ((Inl e, w), s1)
      | (Inr p, s1) \<Rightarrow>
          (let w1 = w\<lparr>tp_pool := Some p\<rparr>
           in case getconn env p s1 of
                (Inl e, s2) \<Rightarrow> ((Inl e, w1), s2)
              | (Inr c, s2) \<Rightarrow>
                  (case probe env c s2 of
                     (None, s3) \<Rightarrow> ((Inr c, w1), s3)
                   | (Some _, s3) \<Rightarrow>
                       (case putconn env p c True s3 of
                          (Some e, s4) \<Rightarrow> ((Inl e, w1), s4)
                        | (None, s4) \<Rightarrow>
                            (case getconn env p s4 of
                               (r, s5) \<Rightarrow> ((r, w1), s5))))))"

section \<open>Concrete environments, wrappers and states\<close>

text \<open>An environment in which every call succeeds, and variations of it.\<close>

definition quiet_env :: env where
  "quiet_env =
     \<lparr>connect_out = (\<lambda>n. Inr \<lparr>conn_id = n, closed = Some False\<rparr>),
      psycopg_pool_installed = True,
      connection_params_out = (\<lambda>n. None),
      new_pool_out = (\<lambda>n. Inr \<lparr>pool_id = n, size = 0, min_size = 0, max_size = 0,
                                 max_overflow = 0, overflow = 0, idle = 0, busy = 0\<rparr>),
      getconn_out = (\<lambda>n. Inr \<lparr>conn_id = n, closed = Some False\<rparr>),
      putconn_out = (\<lambda>n. None),
      close_pool_out = (\<lambda>n. None),
      resize_out = (\<lambda>n. None),
      conn_close_out = (\<lambda>n. None),
      probe_out = (\<lambda>n. None),
      super_close_out = (\<lambda>n. None)\<rparr>"

text \<open>The error of a database server that has no free connection slot, and a driver
  that answers with it three times before it connects.\<close>

definition too_many_clients_error :: exn where
  "too_many_clients_error = OperationalError ''FATAL:  sorry, too many clients already''"

definition env_three_failures :: env where
  "env_three_failures =
     quiet_env\<lparr>connect_out :=
       (\<lambda>n. if n < 3 then Inl too_many_clients_error
            else Inr \<lparr>conn_id = n, closed = Some False\<rparr>)\<rparr>"

text \<open>The state of a fresh process, settings without any of the keys, and a wrapper
  without pooling.\<close>

definition empty_world :: world where
  "empty_world =
     \<lparr>connection_pools = Map.empty, pool_settings = [], pool_monitor = False,
      pools = Map.empty, clock = 0, trace = []\<rparr>"

definition plain_settings :: settings_dict where
  "plain_settings =
     \<lparr>MIN_CONNECTIONS = None, MAX_CONNECTIONS = None, MAX_OVERFLOW = None,
      POOL_TIMEOUT = None, POOL_MAX_CONN_AGE = None, POOL_RECYCLE_THRESHOLD = None,
      CONN_MAX_AGE = None, CONN_HEALTH_CHECKS = None, OPTIONS_pool = None\<rparr>"

definition wrapper_no_pool :: wrapper where
  "wrapper_no_pool =
     \<lparr>settings_dict = plain_settings, wrapper_alias = Some ''default'',
      min_connections = 20, max_connections = 100, wrapper_max_overflow = 10,
      timeout = 3000, max_conn_age = 1800, recycle_threshold = 4 / 5, connection = None\<rparr>"


text \<open>A wrapper with pooling on, made by \<open>init\<close> in the empty state; the state after
  it, and after the first access to its pool.\<close>

definition pooled_settings :: settings_dict where
  "pooled_settings = plain_settings\<lparr>OPTIONS_pool := Some []\<rparr>"

definition wrapper_default :: wrapper where
  "wrapper_default = fst (init pooled_settings (Some ''default'') empty_world)"

definition world_init :: world where
  "world_init = snd (init pooled_settings (Some ''default'') empty_world)"

definition pool0 :: pool where
  "pool0 = \<lparr>pool_id = 0, size = 0, min_size = 0, max_size = 0, max_overflow = 0,
            overflow = 0, idle = 0, busy = 0\<rparr>"

definition world_pooled :: world where
  "world_pooled = snd (pool quiet_env wrapper_default world_init)"

text \<open>A wrapper of database_wrapper.py and the state after its pool was made.\<close>

definition tp_wrapper_default :: tp_wrapper where
  "tp_wrapper_default =
     \<lparr>tp_alias = Some ''default'', tp_min_connections = 1, tp_max_connections = 10,
      tp_max_overflow = 5, tp_pool = None, tp_connection = None\<rparr>"

definition world_tp :: world where
  "world_tp = snd (tp_lookup_pool quiet_env tp_wrapper_default empty_world)"

text \<open>A wrapper with pooling on and persistent connections.\<close>

definition wrapper_persistent :: wrapper where
  "wrapper_persistent =
     fst (init (pooled_settings\<lparr>CONN_MAX_AGE := Some 600\<rparr>) (Some ''default'') empty_world)"

text \<open>The state after a successful emergency recovery that replaced the pool \<open>p\<close> of the
  wrapper's alias by \<open>p'\<close>; \<open>st\<close> is the settings dictionary of the alias.\<close>

definition rebuilt :: "wrapper \<Rightarrow> pool \<Rightarrow> pool \<Rightarrow> settings \<Rightarrow> world \<Rightarrow> world" where
  "rebuilt w p p' st s =
     s\<lparr>connection_pools := (connection_pools s)(wrapper_alias w \<mapsto> p'),
       pool_settings := AList.update (wrapper_alias w)
          (AList.update ''created_at'' (PDatetime (clock s + 1 / 2)) st) (pool_settings s),
       clock := clock s + 1 / 2,
       trace := trace s @
         [ClosePool (pool_id p), Sleep (1 / 2), GetConnectionParams,
          NewPool (wrapper_alias w) (min_connections w) (max_connections w)
            (wrapper_max_overflow w) (timeout w)
            (case CONN_HEALTH_CHECKS (settings_dict w) of None \<Rightarrow> True | Some b \<Rightarrow> b)
            (case OPTIONS_pool (settings_dict w) of None \<Rightarrow> [] | Some kw \<Rightarrow> kw)]\<rparr>"

text \<open>A pool that answers every acquisition with the exhaustion error.\<close>

definition env_exhausted :: env where
  "env_exhausted = quiet_env\<lparr>getconn_out := (\<lambda>n. Inl too_many_clients_error)\<rparr>"

definition default_NewPool :: event where
  "default_NewPool = NewPool (Some ''default'') 20 100 10 3000 True []"

text \<open>Connections with the flag open and closed, and environments for returning and
  validating them: returning and closing raise; every probe fails; the first connection
  is closed and the replacement fails or succeeds.\<close>

definition conn_live :: conn where
  "conn_live = \<lparr>conn_id = 0, closed = Some False\<rparr>"

definition broken_error :: exn where
  "broken_error = OperationalError ''connection is broken''"

definition env_putconn_fails :: env where
  "env_putconn_fails =
     quiet_env\<lparr>putconn_out := (\<lambda>n. Some broken_error),
               conn_close_out := (\<lambda>n. Some broken_error)\<rparr>"

definition wrapper_holding :: wrapper where
  "wrapper_holding = wrapper_default\<lparr>connection := Some conn_live\<rparr>"

text \<open>A small pool, nine of its ten connections busy.\<close>

definition small_settings :: settings_dict where
  "small_settings = pooled_settings\<lparr>MIN_CONNECTIONS := Some 2, MAX_CONNECTIONS := Some 10\<rparr>"

definition wrapper_small :: wrapper where
  "wrapper_small = fst (init small_settings (Some ''default'') empty_world)"

definition pool_busy :: pool where
  "pool_busy = \<lparr>pool_id = 0, size = 10, min_size = 2, max_size = 10, max_overflow = 10,
                overflow = 0, idle = 1, busy = 9\<rparr>"

definition env_busy :: env where
  "env_busy = quiet_env\<lparr>new_pool_out := (\<lambda>n. Inr pool_busy)\<rparr>"

definition world_small_init :: world where
  "world_small_init = snd (init small_settings (Some ''default'') empty_world)"

definition world_small :: world where
  "world_small = snd (pool env_busy wrapper_small world_small_init)"

definition small_NewPool :: event where
  "small_NewPool = NewPool (Some ''default'') 2 10 10 3000 True []"

definition env_dead :: env where
  "env_dead = quiet_env\<lparr>probe_out := (\<lambda>n. Some broken_error)\<rparr>"

definition conn_closed :: conn where
  "conn_closed = \<lparr>conn_id = 0, closed = Some True\<rparr>"

definition env_closed_then_exhausted :: env where
  "env_closed_then_exhausted =
     quiet_env\<lparr>getconn_out :=
       (\<lambda>n. if n = 0 then Inr conn_closed
            else if n = 1 then Inl too_many_clients_error
            else Inr \<lparr>conn_id = n, closed = Some False\<rparr>)\<rparr>"

definition env_closed_first :: env where
  "env_closed_first =
     quiet_env\<lparr>getconn_out :=
       (\<lambda>n. if n = 0 then Inr conn_closed else Inr \<lparr>conn_id = n, closed = Some False\<rparr>)\<rparr>"

text \<open>The error of the sweep, and a state with two aliases that both have a pool.\<close>

definition recycle_threshold_KeyError :: exn where
  "recycle_threshold_KeyError = KeyError (repr_str ''recycle_threshold'')"

definition wrapper_replica :: wrapper where
  "wrapper_replica = fst (init small_settings (Some ''replica'') world_small_init)"

definition env_two :: env where
  "env_two = quiet_env\<lparr>new_pool_out := (\<lambda>n. Inr (pool_busy\<lparr>pool_id := n\<rparr>))\<rparr>"

definition world_two_init :: world where
  "world_two_init = snd (init small_settings (Some ''replica'') world_small_init)"

definition world_two_first :: world where
  "world_two_first = snd (pool env_two wrapper_small world_two_init)"

definition world_two :: world where
  "world_two = snd (pool env_two wrapper_replica world_two_first)"

definition small_dict :: settings where
  "small_dict = [(''min_connections'', PInt 2), (''max_connections'', PInt 10),
                 (''max_overflow'', PInt 10), (''timeout'', PInt 3000),
                 (''created_at'', PDatetime 0)]"

text \<open>The settings dictionaries as \<open>init\<close> and \<open>pool\<close> write them: none has the key
  \<^verbatim>\<open>recycle_threshold\<close>.\<close>

definition settings_as_stored :: "world \<Rightarrow> bool" where
  "settings_as_stored s =
     (\<forall>(a, st) \<in> set (pool_settings s). map_of st ''recycle_threshold'' = None)"

text \<open>A pool of a hundred connections, seven of them busy.\<close>

definition pool_seven :: pool where
  "pool_seven = \<lparr>pool_id = 0, size = 100, min_size = 20, max_size = 100, max_overflow = 10,
                 overflow = 0, idle = 93, busy = 7\<rparr>"

definition env_seven :: env where
  "env_seven = quiet_env\<lparr>new_pool_out := (\<lambda>n. Inr pool_seven)\<rparr>"
section \<open>Rounding to binary64\<close>


lemma floor_log2_bounds:
  assumes "0 < x"
  shows "2 powi (floor_log2 x) \<le> x \<and> x < 2 powi (floor_log2 x + 1)"
proof -
  obtain p q where pq: "quotient_of x = (p, q)" by force
  then have q: "0 < q" and x: "x = of_int p / of_int q"
    using quotient_of_denom_pos quotient_of_div by auto
  with assms have p: "0 < p"
    by (simp add: zero_less_divide_iff)
  let ?d = "bitlen p - bitlen q"
  have bp: "2 ^ nat (bitlen p - 1) \<le> p" "p < 2 ^ nat (bitlen p)"
    using bitlen_bounds[OF p] by auto
  have bq: "2 ^ nat (bitlen q - 1) \<le> q" "q < 2 ^ nat (bitlen q)"
    using bitlen_bounds[OF q] by auto
  have lp: "1 \<le> bitlen p" and lq: "1 \<le> bitlen q"
    using p q bitlen_eq_zero_iff[of p] bitlen_eq_zero_iff[of q] bitlen_nonneg[of p]
      bitlen_nonneg[of q] by linarith+
  have p1: "(2::rat) powi (bitlen p - 1) \<le> of_int p"
  proof -
    have "(2::rat) powi (bitlen p - 1) = of_int (2 ^ nat (bitlen p - 1))"
      using lp by (simp add: power_int_nonneg_exp)
    also have "\<dots> \<le> of_int p" using bp(1) by (simp only: of_int_le_iff)
    finally show ?thesis .
  qed
  have p2: "of_int p < (2::rat) powi (bitlen p)"
  proof -
    have "(of_int p :: rat) < of_int (2 ^ nat (bitlen p))"
      using bp(2) by (simp only: of_int_less_iff)
    also have "\<dots> = (2::rat) powi (bitlen p)"
      using lp by (simp add: power_int_nonneg_exp)
    finally show ?thesis .
  qed
  have q1: "(2::rat) powi (bitlen q - 1) \<le> of_int q"
  proof -
    have "(2::rat) powi (bitlen q - 1) = of_int (2 ^ nat (bitlen q - 1))"
      using lq by (simp add: power_int_nonneg_exp)
    also have "\<dots> \<le> of_int q" using bq(1) by (simp only: of_int_le_iff)
    finally show ?thesis .
  qed
  have q2: "of_int q < (2::rat) powi (bitlen q)"
  proof -
    have "(of_int q :: rat) < of_int (2 ^ nat (bitlen q))"
      using bq(2) by (simp only: of_int_less_iff)
    also have "\<dots> = (2::rat) powi (bitlen q)"
      using lq by (simp add: power_int_nonneg_exp)
    finally show ?thesis .
  qed
  have qpos: "(0::rat) < of_int q" using q by simp
  have lower: "(2::rat) powi (?d - 1) \<le> x"
  proof -
    have "(2::rat) powi (?d - 1) * of_int q \<le> 2 powi (?d - 1) * 2 powi (bitlen q)"
      using q2 by (intro mult_left_mono) simp_all
    also have "\<dots> = 2 powi (bitlen p - 1)"
      by (simp add: power_int_add[symmetric])
    also have "\<dots> \<le> of_int p" by (rule p1)
    finally show ?thesis
      using qpos by (simp add: x pos_le_divide_eq)
  qed
  have upper: "x < (2::rat) powi (?d + 1)"
  proof -
    have "(of_int p :: rat) < 2 powi (bitlen p)" by (rule p2)
    also have "\<dots> = 2 powi (?d + 1) * 2 powi (bitlen q - 1)"
      by (simp add: power_int_add[symmetric])
    also have "\<dots> \<le> 2 powi (?d + 1) * of_int q"
      using q1 by (intro mult_left_mono) simp_all
    finally show ?thesis
      using qpos by (simp add: x pos_divide_less_eq)
  qed
  show ?thesis
  proof (cases "(2::rat) powi ?d \<le> x")
    case True
    then have "floor_log2 x = ?d" by (simp add: floor_log2_def pq Let_def)
    with True upper show ?thesis by simp
  next
    case False
    then have "floor_log2 x = ?d - 1" by (simp add: floor_log2_def pq Let_def)
    with False lower show ?thesis by simp
  qed
qed

lemma powi_less_cancel: "(2::rat) powi m < 2 powi n \<Longrightarrow> m < n"
  using power_int_increasing[of n m "2::rat"] by (cases "m < n") auto

lemma floor_log2_unique:
  assumes "0 < x" "2 powi e \<le> x" "x < 2 powi (e + 1)"
  shows "floor_log2 x = e"
proof -
  let ?f = "floor_log2 x"
  from floor_log2_bounds[OF assms(1)] have b: "2 powi ?f \<le> x" "x < 2 powi (?f + 1)" by auto
  have "(2::rat) powi e < 2 powi (?f + 1)" using assms(2) b(2) by linarith
  then have 1: "e < ?f + 1" by (rule powi_less_cancel)
  have "(2::rat) powi ?f < 2 powi (e + 1)" using assms(3) b(1) by linarith
  then have 2: "?f < e + 1" by (rule powi_less_cancel)
  from 1 2 show ?thesis by linarith
qed















section \<open>Traces\<close>

lemma sleeps_append: "sleeps (xs @ ys) = sleeps xs @ sleeps ys"
  by (induction xs rule: sleeps.induct) auto

lemma calls_append: "calls k (xs @ ys) = calls k xs + calls k ys"
  by (simp add: calls_def)

lemma calls_Nil: "calls k [] = 0"
  by (simp add: calls_def)

lemma calls_Cons: "calls k (ev # tr) = (if call_of ev = k then 1 else 0) + calls k tr"
  by (simp add: calls_def)

lemma trace_emit: "trace (emit ev s) = trace s @ [ev]"
  by (simp add: emit_def)

lemma trace_sleep: "trace (sleep d s) = trace s @ [Sleep d]"
  by (simp add: sleep_def emit_def)

lemma retry_loop_stop:
  "retry_count = max_retries \<or> \<not> transient_failure (connect_out env (calls CConnect (trace s)))
   \<Longrightarrow> retry_loop env retry_count d s = (connect_out env (calls CConnect (trace s)), emit Connect s)"
  by (subst retry_loop.simps)
     (auto simp: super_get_new_connection_def transient_failure_def split: sum.splits)

lemma retry_loop_again:
  "connect_out env (calls CConnect (trace s)) = Inl e \<Longrightarrow> too_many_clients e
   \<Longrightarrow> retry_count < max_retries
   \<Longrightarrow> retry_loop env retry_count d s =
       retry_loop env (retry_count + 1) (d * 2)
         (sleep d (emit (Log (RetryWarning e (retry_count + 1) max_retries)) (emit Connect s)))"
  by (subst retry_loop.simps) (simp add: super_get_new_connection_def)


lemma pow2_map: "d # map (\<lambda>i. d * 2 * 2 ^ i) [0..<m] = map (\<lambda>i. d * 2 ^ i) [0..<Suc m]" for d :: rat
  by (induction m) simp_all

lemma calls_after_retry:
  "calls CConnect (trace (sleep d (emit (Log l) (emit Connect s)))) = calls CConnect (trace s) + 1"
  by (simp add: trace_sleep trace_emit calls_append calls_Cons calls_Nil)

lemma sleeps_after_retry:
  "sleeps (trace (sleep d (emit (Log l) (emit Connect s)))) = sleeps (trace s) @ [d]"
  by (simp add: trace_sleep trace_emit sleeps_append)

lemma retry_loop_run:
  "\<lbrakk>\<forall>i<m. transient_failure (connect_out env (calls CConnect (trace s) + i));
    r + m \<le> max_retries;
    r + m = max_retries \<or> \<not> transient_failure (connect_out env (calls CConnect (trace s) + m))\<rbrakk>
   \<Longrightarrow> fst (retry_loop env r d s) = connect_out env (calls CConnect (trace s) + m)
     \<and> calls CConnect (trace (snd (retry_loop env r d s))) = calls CConnect (trace s) + m + 1
     \<and> sleeps (trace (snd (retry_loop env r d s))) = sleeps (trace s) @ map (\<lambda>i. d * 2 ^ i) [0..<m]"
proof (induction m arbitrary: r d s)
  case 0
  then have "retry_loop env r d s = (connect_out env (calls CConnect (trace s)), emit Connect s)"
    by (intro retry_loop_stop) simp
  then show ?case
    by (simp add: trace_emit calls_append calls_Cons calls_Nil sleeps_append)
next
  case (Suc m)
  let ?k = "calls CConnect (trace s)"
  from Suc.prems(1) have "transient_failure (connect_out env (?k + 0))"
    by blast
  then obtain e where e: "connect_out env ?k = Inl e" "too_many_clients e"
    by (auto simp: transient_failure_def split: sum.splits)
  let ?s' = "sleep d (emit (Log (RetryWarning e (r + 1) max_retries)) (emit Connect s))"
  have unf: "retry_loop env r d s = retry_loop env (r + 1) (d * 2) ?s'"
    using e Suc.prems(2) by (intro retry_loop_again) simp_all
  have a1: "\<forall>i<m. transient_failure (connect_out env (calls CConnect (trace ?s') + i))"
  proof (intro allI impI)
    fix i assume "i < m"
    then have "Suc i < Suc m" by simp
    with Suc.prems(1) have "transient_failure (connect_out env (?k + Suc i))" by blast
    then show "transient_failure (connect_out env (calls CConnect (trace ?s') + i))"
      by (simp add: calls_after_retry)
  qed
  have a2: "r + 1 + m \<le> max_retries" using Suc.prems(2) by simp
  have a3: "r + 1 + m = max_retries \<or> \<not> transient_failure (connect_out env (calls CConnect (trace ?s') + m))"
    using Suc.prems(3) by (simp add: calls_after_retry)
  from Suc.IH[OF a1 a2 a3] show ?case
    unfolding unf by (simp add: calls_after_retry sleeps_after_retry pow2_map del: upt_Suc)
qed


section \<open>Retry with backoff\<close>

lemma pool_disabled:
  "wrapper_alias w = NO_DB_ALIAS \<or> OPTIONS_pool (settings_dict w) = None
   \<Longrightarrow> pool env w s = (Inr None, s)"
  by (simp add: pool_def)

lemma too_many_clients_error_transient: "too_many_clients too_many_clients_error"
  by (simp add: too_many_clients_def too_many_clients_error_def)

text \<open>Every sequence of answers has its number of leading failures, cut off at 10, so
  the next theorem applies to every environment.\<close>

lemma leading_failures_exist:
  "\<exists>m\<le>N. (\<forall>i<m. P i) \<and> (m = N \<or> \<not> P m)" for P :: "nat \<Rightarrow> bool"
proof (induction N)
  case 0
  then show ?case by simp
next
  case (Suc N)
  then obtain m where m: "m \<le> N" "\<forall>i<m. P i" "m = N \<or> \<not> P m" by blast
  show ?case
  proof (cases "P m")
    case False
    with m show ?thesis by (intro exI[of _ m]) simp
  next
    case True
    with m have "m = N" by blast
    with True m(2) have "\<forall>i<Suc N. P i" by (simp add: less_Suc_eq)
    then show ?thesis by (intro exI[of _ "Suc N"]) simp
  qed
qed

lemma retry_count_exists:
  "\<exists>m\<le>10. (\<forall>i<m. transient_failure (connect_out env (k + i)))
      \<and> (m = 10 \<or> \<not> transient_failure (connect_out env (k + m)))"
  by (rule leading_failures_exist)

text \<open>
  Claim C1. With no pool for the wrapper, \<open>get_new_connection\<close> opens a raw connection and
  retries on the answer "too many clients already" only: if the first \<open>m\<close> answers of
  the driver are such failures, with \<open>m\<close> at most 10, and either \<open>m\<close> is 10 or the next
  answer is anything else (a connection or another error), then the result is that next
  answer, returned or raised at once, after exactly \<open>m + 1\<close> attempts, and the sleeps
  between the attempts are 0.01 seconds doubled each time. So there are at most 10
  retries (11 attempts in all), and three failures followed by a success give the connection at the fourth
  attempt after the sleeps 0.01, 0.02 and 0.04.
\<close>

theorem get_new_connection_retry_backoff:
  assumes "wrapper_alias w = NO_DB_ALIAS \<or> OPTIONS_pool (settings_dict w) = None"
    and "\<forall>i<m. transient_failure (connect_out env (calls CConnect (trace s) + i))"
    and "m \<le> 10"
    and "m = 10 \<or> \<not> transient_failure (connect_out env (calls CConnect (trace s) + m))"
  shows "fst (get_new_connection env w s) = connect_out env (calls CConnect (trace s) + m)
    \<and> calls CConnect (trace (snd (get_new_connection env w s))) = calls CConnect (trace s) + m + 1
    \<and> sleeps (trace (snd (get_new_connection env w s))) =
        sleeps (trace s) @ map (\<lambda>i. 1 / 100 * 2 ^ i) [0..<m]"
proof -
  have g: "get_new_connection env w s = retry_loop env 0 (1 / 100) s"
    using assms(1) by (simp add: get_new_connection_def pool_disabled initial_retry_delay_def)
  have "0 + m \<le> max_retries" "0 + m = max_retries \<or>
      \<not> transient_failure (connect_out env (calls CConnect (trace s) + m))"
    using assms(3,4) by (simp_all add: max_retries_def)
  from retry_loop_run[OF assms(2) this] show ?thesis
    unfolding g .
qed

text \<open>Three failures, then a connection: four attempts and three growing sleeps.\<close>

theorem get_new_connection_retry_backoff_witness:
  "fst (get_new_connection env_three_failures wrapper_no_pool empty_world)
     = Inr \<lparr>conn_id = 3, closed = Some False\<rparr>
   \<and> calls CConnect (trace (snd (get_new_connection env_three_failures wrapper_no_pool empty_world))) = 4
   \<and> sleeps (trace (snd (get_new_connection env_three_failures wrapper_no_pool empty_world)))
       = [1 / 100, 1 / 50, 1 / 25]"
proof -
  have h1: "wrapper_alias wrapper_no_pool = NO_DB_ALIAS
      \<or> OPTIONS_pool (settings_dict wrapper_no_pool) = None"
    by (simp add: wrapper_no_pool_def plain_settings_def)
  have k: "calls CConnect (trace empty_world) = 0"
    by (simp add: empty_world_def calls_def)
  have h2: "\<forall>i<3. transient_failure
      (connect_out env_three_failures (calls CConnect (trace empty_world) + i))"
    by (simp add: k env_three_failures_def transient_failure_def too_many_clients_error_transient)
  have h3: "(3::nat) \<le> 10" by simp
  have h4: "(3::nat) = 10 \<or> \<not> transient_failure
      (connect_out env_three_failures (calls CConnect (trace empty_world) + 3))"
    by (simp add: k env_three_failures_def transient_failure_def)
  have u: "[0..<3] = [0, 1, 2]" by (simp add: upt_rec)
  have c: "connect_out env_three_failures 3 = Inr \<lparr>conn_id = 3, closed = Some False\<rparr>"
    by (simp add: env_three_failures_def)
  have t: "sleeps (trace empty_world) = []"
    by (simp add: empty_world_def)
  from get_new_connection_retry_backoff[OF h1 h2 h3 h4] show ?thesis
    by (simp add: k u c t)
qed

section \<open>The pool of an alias\<close>

lemma pool_existing:
  "wrapper_alias w \<noteq> NO_DB_ALIAS \<Longrightarrow> OPTIONS_pool (settings_dict w) \<noteq> None
   \<Longrightarrow> connection_pools s (wrapper_alias w) = Some p
   \<Longrightarrow> pool env w s = (Inr (Some p), s)"
  by (simp add: pool_def)

lemma pool_Some_enabled:
  "pool env w s = (Inr (Some p), s1)
   \<Longrightarrow> wrapper_alias w \<noteq> NO_DB_ALIAS \<and> OPTIONS_pool (settings_dict w) \<noteq> None"
  by (auto simp: pool_def split: if_splits)

lemma pool_Some_registered:
  "pool env w s = (Inr (Some p), s1) \<Longrightarrow> connection_pools s1 (wrapper_alias w) = Some p"
  by (auto simp: pool_def Let_def get_connection_params_def ConnectionPool_def
      split: if_splits option.splits sum.splits prod.splits)

lemma pool_again:
  "pool env w s = (Inr (Some p), s1) \<Longrightarrow> pool env w s1 = (Inr (Some p), s1)"
  using pool_Some_enabled[of env w s p s1] pool_Some_registered[of env w s p s1]
  by (simp add: pool_existing)

lemma pool_state_unchanged:
  "connection_pools s (wrapper_alias w) = Some p \<Longrightarrow> snd (pool env w s) = s"
  by (simp add: pool_def)

lemma tp_lookup_pool_existing:
  "pools s (tp_alias w) = Some p \<Longrightarrow> tp_lookup_pool env w s = (Inr p, s)"
  by (simp add: tp_lookup_pool_def)

lemma pool_persistent:
  assumes "wrapper_alias w \<noteq> NO_DB_ALIAS" "OPTIONS_pool (settings_dict w) \<noteq> None"
    and "connection_pools s (wrapper_alias w) = None"
    and "CONN_MAX_AGE (settings_dict w) = Some n" "n \<noteq> 0"
  shows "pool env w s = (Inl (ImproperlyConfigured pooling_persistent_msg), s)"
  using assms by (simp add: pool_def)

lemma wrapper_default_alias: "wrapper_alias wrapper_default = Some ''default''"
  by (simp add: wrapper_default_def init_def Let_def)

lemma wrapper_default_enabled:
  "wrapper_alias wrapper_default \<noteq> NO_DB_ALIAS"
  "OPTIONS_pool (settings_dict wrapper_default) \<noteq> None"
  by (simp_all add: wrapper_default_def init_def Let_def NO_DB_ALIAS_def pooled_settings_def)

lemma wrapper_default_max_age: "CONN_MAX_AGE (settings_dict wrapper_default) = None"
  by (simp add: wrapper_default_def init_def Let_def pooled_settings_def plain_settings_def)

lemma world_init_eq:
  "world_init =
     \<lparr>connection_pools = Map.empty,
      pool_settings = [(Some ''default'',
         [(''min_connections'', PInt 20), (''max_connections'', PInt 100),
          (''max_overflow'', PInt 10), (''timeout'', PInt 3000),
          (''created_at'', PDatetime 0)])],
      pool_monitor = True, pools = Map.empty, clock = 0, trace = [StartMonitor]\<rparr>"
  by (simp add: world_init_def init_def Let_def NO_DB_ALIAS_def pooled_settings_def
      plain_settings_def empty_world_def get_default_def start_pool_monitor_def emit_def)

lemma pool_world_init:
  "pool quiet_env wrapper_default world_init = (Inr (Some pool0), world_pooled)"
proof -
  have "fst (pool quiet_env wrapper_default world_init) = Inr (Some pool0)"
    using wrapper_default_enabled
    by (simp add: pool_def wrapper_default_max_age wrapper_default_alias world_init_eq
        quiet_env_def get_connection_params_def ConnectionPool_def calls_def emit_def pool0_def
        Let_def)
  then show ?thesis
    by (simp add: world_pooled_def prod_eq_iff)
qed

lemma world_pooled_pool: "connection_pools world_pooled (wrapper_alias wrapper_default) = Some pool0"
  using pool_world_init by (rule pool_Some_registered)

lemma world_tp_pool: "pools world_tp (tp_alias tp_wrapper_default) = Some pool0"
  by (simp add: world_tp_def tp_lookup_pool_def empty_world_def ThreadedConnectionPool_def
      quiet_env_def calls_def pool0_def tp_wrapper_default_def)

lemma wrapper_persistent_facts:
  "wrapper_alias wrapper_persistent \<noteq> NO_DB_ALIAS"
  "OPTIONS_pool (settings_dict wrapper_persistent) \<noteq> None"
  "connection_pools world_init (wrapper_alias wrapper_persistent) = None"
  "CONN_MAX_AGE (settings_dict wrapper_persistent) = Some 600"
  by (simp_all add: wrapper_persistent_def init_def Let_def NO_DB_ALIAS_def pooled_settings_def
      world_init_eq)

text \<open>
  Claim C6. An access to the pool of an alias that has one creates nothing: with pooling on
  for the wrapper it returns the registered pool and leaves the whole state, the registry
  and the trace of constructor calls included, as it was; whatever the wrapper's
  options, the state is unchanged. A pool that an access has returned, freshly made or
  not, is what every later access returns, with no further change. The registry is a map,
  so an alias has at most one pool. The lookup under the lock of database_wrapper.py
  behaves the same way. (Interleavings of threads are outside the model; the lock makes
  each access one step.)
\<close>

theorem pool_access_idempotent:
  "(wrapper_alias w \<noteq> NO_DB_ALIAS \<and> OPTIONS_pool (settings_dict w) \<noteq> None
      \<and> connection_pools s (wrapper_alias w) = Some p
     \<longrightarrow> pool env w s = (Inr (Some p), s))
   \<and> (connection_pools s (wrapper_alias w) = Some p \<longrightarrow> snd (pool env w s) = s)
   \<and> (pool env w s0 = (Inr (Some p0), s1) \<longrightarrow> pool env w s1 = (Inr (Some p0), s1))
   \<and> (pools t (tp_alias w2) = Some q \<longrightarrow> tp_lookup_pool env w2 t = (Inr q, t))"
  using pool_existing[of w s p env] pool_state_unchanged[of s w p env]
    pool_again[of env w s0 p0 s1] tp_lookup_pool_existing[of t w2 q env]
  by blast

theorem pool_access_idempotent_witness:
  "pool quiet_env wrapper_default world_pooled = (Inr (Some pool0), world_pooled)
   \<and> snd (pool quiet_env wrapper_default world_pooled) = world_pooled
   \<and> pool quiet_env wrapper_default world_init = (Inr (Some pool0), world_pooled)
   \<and> tp_lookup_pool quiet_env tp_wrapper_default world_tp = (Inr pool0, world_tp)"
  using pool_access_idempotent[of wrapper_default world_pooled pool0 quiet_env
      world_init pool0 world_pooled world_tp tp_wrapper_default pool0]
    wrapper_default_enabled world_pooled_pool pool_world_init world_tp_pool
  by simp

text \<open>
  Claim C7. With pooling on, a nonzero \<^verbatim>\<open>CONN_MAX_AGE\<close> and no pool yet for the alias, the
  access to the pool raises \<^verbatim>\<open>ImproperlyConfigured\<close> and leaves the state as it was: no
  pool is registered and no constructor is called. \<open>get_new_connection\<close> raises the same
  error with the state unchanged, so nothing was retried, slept or opened.
\<close>

theorem pool_persistent_connections_rejected:
  assumes "wrapper_alias w \<noteq> NO_DB_ALIAS" "OPTIONS_pool (settings_dict w) \<noteq> None"
    and "connection_pools s (wrapper_alias w) = None"
    and "CONN_MAX_AGE (settings_dict w) = Some n" "n \<noteq> 0"
  shows "pool env w s = (Inl (ImproperlyConfigured pooling_persistent_msg), s)
    \<and> get_new_connection env w s = (Inl (ImproperlyConfigured pooling_persistent_msg), s)"
  using pool_persistent[OF assms] by (simp add: get_new_connection_def)

theorem pool_persistent_connections_rejected_witness:
  "pool quiet_env wrapper_persistent world_init
     = (Inl (ImproperlyConfigured pooling_persistent_msg), world_init)
   \<and> get_new_connection quiet_env wrapper_persistent world_init
     = (Inl (ImproperlyConfigured pooling_persistent_msg), world_init)"
  using pool_persistent_connections_rejected[OF wrapper_persistent_facts, of quiet_env]
  by simp

section \<open>Emergency recovery\<close>

lemma emit_fields:
  "connection_pools (emit ev s) = connection_pools s"
  "pool_settings (emit ev s) = pool_settings s"
  "pools (emit ev s) = pools s"
  "clock (emit ev s) = clock s"
  "pool_monitor (emit ev s) = pool_monitor s"
  by (simp_all add: emit_def)

lemma sleep_fields:
  "connection_pools (sleep d s) = connection_pools s"
  "pool_settings (sleep d s) = pool_settings s"
  "pools (sleep d s) = pools s"
  "clock (sleep d s) = clock s + d"
  "pool_monitor (sleep d s) = pool_monitor s"
  by (simp_all add: sleep_def emit_def)

lemma pool_registered:
  "wrapper_alias w \<noteq> NO_DB_ALIAS \<Longrightarrow> OPTIONS_pool (settings_dict w) \<noteq> None
   \<Longrightarrow> connection_pools s (wrapper_alias w) \<noteq> None
   \<Longrightarrow> pool env w s = (Inr (connection_pools s (wrapper_alias w)), s)"
  by (auto simp: pool_def)

text \<open>What the try block does to the state when the alias has a pool: it only appends
  getconn and putconn calls to the trace.\<close>

lemma acquire_checked_existing:
  assumes "wrapper_alias w \<noteq> NO_DB_ALIAS" "OPTIONS_pool (settings_dict w) \<noteq> None"
    and "connection_pools s (wrapper_alias w) = Some p"
  shows "\<exists>evs. snd (acquire_checked env w s) = s\<lparr>trace := trace s @ evs\<rparr>
           \<and> (\<forall>ev \<in> set evs. call_of ev = CGetConn \<or> call_of ev = CPutConn)"
proof -
  let ?g = "GetConn (pool_id p)"
  note ex = pool_getconn_def pool_putconn_def pool_registered[OF assms(1,2)]
  have "snd (acquire_checked env w s) = emit ?g s
      \<or> (\<exists>c. snd (acquire_checked env w s) = emit (PutConn (pool_id p) c True) (emit ?g s))
      \<or> (\<exists>c. snd (acquire_checked env w s)
            = emit ?g (emit (PutConn (pool_id p) c True) (emit ?g s)))"
    using assms(3)
    by (auto simp: acquire_checked_def ex emit_fields getconn_def putconn_def
        split: sum.splits option.splits)
  then consider (one) "snd (acquire_checked env w s) = emit ?g s"
    | (two) c where "snd (acquire_checked env w s) = emit (PutConn (pool_id p) c True) (emit ?g s)"
    | (three) c where
        "snd (acquire_checked env w s) = emit ?g (emit (PutConn (pool_id p) c True) (emit ?g s))"
    by blast
  then show ?thesis
  proof cases
    case one
    then have "snd (acquire_checked env w s) = s\<lparr>trace := trace s @ [?g]\<rparr>"
      by (simp add: emit_def)
    then show ?thesis by (intro exI[of _ "[?g]"]) simp
  next
    case (two c)
    then have "snd (acquire_checked env w s)
        = s\<lparr>trace := trace s @ [?g, PutConn (pool_id p) c True]\<rparr>"
      by (simp add: emit_def)
    then show ?thesis by (intro exI[of _ "[?g, PutConn (pool_id p) c True]"]) simp
  next
    case (three c)
    then have "snd (acquire_checked env w s)
        = s\<lparr>trace := trace s @ [?g, PutConn (pool_id p) c True, ?g]\<rparr>"
      by (simp add: emit_def)
    then show ?thesis by (intro exI[of _ "[?g, PutConn (pool_id p) c True, ?g]"]) simp
  qed
qed

lemma pool_create:
  assumes "wrapper_alias w \<noteq> NO_DB_ALIAS" "OPTIONS_pool (settings_dict w) \<noteq> None"
    and "connection_pools s (wrapper_alias w) = None"
    and "CONN_MAX_AGE (settings_dict w) = None \<or> CONN_MAX_AGE (settings_dict w) = Some 0"
    and "psycopg_pool_installed env"
    and "connection_params_out env (calls CParams (trace s)) = None"
    and "new_pool_out env (calls CNewPool (trace s)) = Inr p'"
    and "map_of (pool_settings s) (wrapper_alias w) = Some st"
  shows "pool env w s =
    (Inr (Some p'),
     s\<lparr>connection_pools := (connection_pools s)(wrapper_alias w \<mapsto> p'),
       pool_settings := AList.update (wrapper_alias w)
          (AList.update ''created_at'' (PDatetime (clock s)) st) (pool_settings s),
       trace := trace s @
         [GetConnectionParams,
          NewPool (wrapper_alias w) (min_connections w) (max_connections w)
            (wrapper_max_overflow w) (timeout w)
            (case CONN_HEALTH_CHECKS (settings_dict w) of None \<Rightarrow> True | Some b \<Rightarrow> b)
            (case OPTIONS_pool (settings_dict w) of None \<Rightarrow> [] | Some kw \<Rightarrow> kw)]\<rparr>)"
proof -
  have age: "(case CONN_MAX_AGE (settings_dict w) of None \<Rightarrow> 0 | Some a \<Rightarrow> a) = 0"
    using assms(4) by auto
  have n: "calls CNewPool (trace s @ [GetConnectionParams]) = calls CNewPool (trace s)"
    by (simp add: calls_append calls_Cons calls_Nil)
  show ?thesis
    using assms(1,2,3,5,6,7,8) age
    by (simp add: pool_def get_connection_params_def ConnectionPool_def emit_def n Let_def)
qed

lemma cleanup_connections_rebuilds:
  assumes en: "wrapper_alias w \<noteq> NO_DB_ALIAS" "OPTIONS_pool (settings_dict w) \<noteq> None"
    and reg: "connection_pools s (wrapper_alias w) = Some p"
    and age: "CONN_MAX_AGE (settings_dict w) = None \<or> CONN_MAX_AGE (settings_dict w) = Some 0"
    and inst: "psycopg_pool_installed env"
    and par: "connection_params_out env (calls CParams (trace s)) = None"
    and new: "new_pool_out env (calls CNewPool (trace s)) = Inr p'"
    and st: "map_of (pool_settings s) (wrapper_alias w) = Some st"
  shows "cleanup_connections env w s = (Inr True, rebuilt w p p' st s)"
proof -
  let ?s4 = "sleep (1 / 2) (emit (ClosePool (pool_id p))
               (s\<lparr>connection_pools := (connection_pools s)(wrapper_alias w := None)\<rparr>))"
  have p1: "pool env w s = (Inr (Some p), s)"
    using en reg by (rule pool_existing)
  have tr: "trace ?s4 = trace s @ [ClosePool (pool_id p), Sleep (1 / 2)]"
    by (simp add: trace_sleep trace_emit)
  have c: "calls CParams (trace ?s4) = calls CParams (trace s)"
    "calls CNewPool (trace ?s4) = calls CNewPool (trace s)"
    by (simp_all add: tr calls_append calls_Cons calls_Nil)
  have f: "connection_pools ?s4 (wrapper_alias w) = None"
    "map_of (pool_settings ?s4) (wrapper_alias w) = Some st"
    using st by (simp_all add: sleep_fields emit_fields)
  have pc: "connection_params_out env (calls CParams (trace ?s4)) = None"
    "new_pool_out env (calls CNewPool (trace ?s4)) = Inr p'"
    using par new by (simp_all only: c)
  have p2: "pool env w ?s4 = (Inr (Some p'), rebuilt w p p' st s)"
    unfolding pool_create[OF en f(1) age inst pc f(2)]
    by (simp add: rebuilt_def sleep_def emit_def)
  have "cleanup_body env w s = (None, rebuilt w p p' st s)"
    by (simp add: cleanup_body_def p1 close_pool_def Let_def p2)
  then show ?thesis
    by (simp add: cleanup_connections_def p1)
qed

lemma rebuilt_fields:
  "connection_pools (rebuilt w p p' st s) = (connection_pools s)(wrapper_alias w \<mapsto> p')"
  "trace (rebuilt w p p' st s) = trace s @
     [ClosePool (pool_id p), Sleep (1 / 2), GetConnectionParams,
      NewPool (wrapper_alias w) (min_connections w) (max_connections w)
        (wrapper_max_overflow w) (timeout w)
        (case CONN_HEALTH_CHECKS (settings_dict w) of None \<Rightarrow> True | Some b \<Rightarrow> b)
        (case OPTIONS_pool (settings_dict w) of None \<Rightarrow> [] | Some kw \<Rightarrow> kw)]"
  "pool_settings (rebuilt w p p' st s) = AList.update (wrapper_alias w)
          (AList.update ''created_at'' (PDatetime (clock s + 1 / 2)) st) (pool_settings s)"
  by (simp_all add: rebuilt_def)

text \<open>How often a pool is closed.\<close>

lemma closes_pool: "calls CClosePool (trace (snd (pool env w s))) = calls CClosePool (trace s)"
  by (auto simp: pool_def get_connection_params_def ConnectionPool_def Let_def trace_emit
      calls_append calls_Cons calls_Nil split: option.splits sum.splits)

lemma closes_pool_getconn:
  "calls CClosePool (trace (snd (pool_getconn env w s))) = calls CClosePool (trace s)"
proof (cases "pool env w s")
  case (Pair r s1)
  then have "calls CClosePool (trace s1) = calls CClosePool (trace s)"
    using closes_pool[of env w s] by simp
  with Pair show ?thesis
    by (auto simp: pool_getconn_def getconn_def trace_emit calls_append calls_Cons calls_Nil
        split: sum.splits option.splits)
qed

lemma closes_pool_putconn:
  "calls CClosePool (trace (snd (pool_putconn env w c cl s))) = calls CClosePool (trace s)"
proof (cases "pool env w s")
  case (Pair r s1)
  then have "calls CClosePool (trace s1) = calls CClosePool (trace s)"
    using closes_pool[of env w s] by simp
  with Pair show ?thesis
    by (auto simp: pool_putconn_def putconn_def trace_emit calls_append calls_Cons calls_Nil
        split: sum.splits option.splits)
qed

lemma closes_acquire_checked:
  "calls CClosePool (trace (snd (acquire_checked env w s))) = calls CClosePool (trace s)"
proof (cases "pool_getconn env w s")
  case (Pair r s1)
  then have 1: "calls CClosePool (trace s1) = calls CClosePool (trace s)"
    using closes_pool_getconn[of env w s] by simp
  show ?thesis
  proof (cases r)
    case (Inl e)
    with Pair 1 show ?thesis by (simp add: acquire_checked_def)
  next
    case (Inr c)
    obtain r2 s2 where 2: "pool_putconn env w c True s1 = (r2, s2)" by force
    then have 3: "calls CClosePool (trace s2) = calls CClosePool (trace s1)"
      using closes_pool_putconn[of env w c True s1] by simp
    show ?thesis
      using Pair Inr 1 2 3 closes_pool_getconn[of env w s2]
      by (auto simp: acquire_checked_def split: option.splits)
  qed
qed

lemma closes_retry_loop:
  "calls CClosePool (trace (snd (retry_loop env r d s))) = calls CClosePool (trace s)"
proof (induction env r d s rule: retry_loop.induct)
  case (1 env retry_count retry_delay s)
  show ?case
  proof (cases "connect_out env (calls CConnect (trace s))")
    case (Inr c)
    then show ?thesis
      by (subst retry_loop.simps)
         (simp add: super_get_new_connection_def trace_emit calls_append calls_Cons calls_Nil)
  next
    case (Inl e)
    show ?thesis
    proof (cases "too_many_clients e \<and> retry_count < max_retries")
      case True
      have "calls CClosePool (trace (snd (retry_loop env retry_count retry_delay s)))
          = calls CClosePool (trace (sleep retry_delay
              (emit (Log (RetryWarning e (retry_count + 1) max_retries)) (emit Connect s))))"
        using "1.IH" Inl True
        by (subst retry_loop.simps) (simp add: super_get_new_connection_def)
      then show ?thesis
        by (simp add: trace_sleep trace_emit calls_append calls_Cons calls_Nil)
    next
      case False
      then show ?thesis
        using Inl
        by (subst retry_loop.simps)
           (auto simp: super_get_new_connection_def trace_emit calls_append calls_Cons calls_Nil)
    qed
  qed
qed

lemma closes_cleanup_body:
  "calls CClosePool (trace (snd (cleanup_body env w s))) \<le> calls CClosePool (trace s) + 1"
proof (cases "pool env w s")
  case (Pair r s1)
  then have 1: "calls CClosePool (trace s1) = calls CClosePool (trace s)"
    using closes_pool[of env w s] by simp
  show ?thesis
  proof (cases r)
    case (Inl e)
    with Pair 1 show ?thesis by (simp add: cleanup_body_def)
  next
    case (Inr cp)
    let ?s2 = "s1\<lparr>connection_pools := (connection_pools s1)(wrapper_alias w := None)\<rparr>"
    let ?s3 = "case cp of None \<Rightarrow> ?s2 | Some p \<Rightarrow> snd (close_pool env p ?s2)"
    have 3: "calls CClosePool (trace ?s3) \<le> calls CClosePool (trace s) + 1"
      using 1 by (simp add: close_pool_def trace_emit calls_append calls_Cons calls_Nil
          split: option.splits)
    have 4: "calls CClosePool (trace (snd (pool env w (sleep (1 / 2) ?s3))))
        = calls CClosePool (trace ?s3)"
      by (simp add: closes_pool trace_sleep calls_append calls_Cons calls_Nil)
    have "snd (cleanup_body env w s) = snd (pool env w (sleep (1 / 2) ?s3))"
      using Pair Inr by (simp add: cleanup_body_def Let_def split: prod.splits sum.splits)
    with 3 4 show ?thesis by simp
  qed
qed

lemma closes_cleanup_connections:
  "calls CClosePool (trace (snd (cleanup_connections env w s))) \<le> calls CClosePool (trace s) + 1"
proof (cases "pool env w s")
  case (Pair r s1)
  then have 1: "calls CClosePool (trace s1) = calls CClosePool (trace s)"
    using closes_pool[of env w s] by simp
  show ?thesis
    using Pair 1 closes_cleanup_body[of env w s1]
    by (auto simp: cleanup_connections_def trace_emit calls_append calls_Cons calls_Nil
        split: sum.splits option.splits prod.splits)
qed

lemma closes_get_new_connection:
  "calls CClosePool (trace (snd (get_new_connection env w s))) \<le> calls CClosePool (trace s) + 1"
proof (cases "pool env w s")
  case (Pair r s1)
  then have 1: "calls CClosePool (trace s1) = calls CClosePool (trace s)"
    using closes_pool[of env w s] by simp
  obtain r2 s2 where 2: "acquire_checked env w s1 = (r2, s2)" by force
  then have 3: "calls CClosePool (trace s2) = calls CClosePool (trace s1)"
    using closes_acquire_checked[of env w s1] by simp
  obtain r4 s4 where 4: "cleanup_connections env w s2 = (r4, s4)" by force
  then have 5: "calls CClosePool (trace s4) \<le> calls CClosePool (trace s2) + 1"
    using closes_cleanup_connections[of env w s2] by simp
  show ?thesis
    using Pair 1 2 3 4 5 closes_retry_loop[of env 0 initial_retry_delay s1]
      closes_pool_getconn[of env w s4]
    by (auto simp: get_new_connection_def acquire_handler_def split: sum.splits option.splits)
qed

lemma get_new_connection_recovers:
  assumes en: "wrapper_alias w \<noteq> NO_DB_ALIAS" "OPTIONS_pool (settings_dict w) \<noteq> None"
    and reg: "connection_pools s (wrapper_alias w) = Some p"
    and fail: "acquire_checked env w s = (Inl e, s2)" "too_many_clients e"
    and age: "CONN_MAX_AGE (settings_dict w) = None \<or> CONN_MAX_AGE (settings_dict w) = Some 0"
    and inst: "psycopg_pool_installed env"
    and par: "connection_params_out env (calls CParams (trace s)) = None"
    and new: "new_pool_out env (calls CNewPool (trace s)) = Inr p'"
    and st: "map_of (pool_settings s) (wrapper_alias w) = Some st"
  shows "fst (get_new_connection env w s) = getconn_out env (calls CGetConn (trace s2))
    \<and> trace (snd (get_new_connection env w s)) = trace s2 @
         [ClosePool (pool_id p), Sleep (1 / 2), GetConnectionParams,
          NewPool (wrapper_alias w) (min_connections w) (max_connections w)
            (wrapper_max_overflow w) (timeout w)
            (case CONN_HEALTH_CHECKS (settings_dict w) of None \<Rightarrow> True | Some b \<Rightarrow> b)
            (case OPTIONS_pool (settings_dict w) of None \<Rightarrow> [] | Some kw \<Rightarrow> kw),
          GetConn (pool_id p')]
    \<and> connection_pools (snd (get_new_connection env w s))
         = (connection_pools s)(wrapper_alias w \<mapsto> p')"
proof -
  obtain evs where evs: "s2 = s\<lparr>trace := trace s @ evs\<rparr>"
    "\<forall>ev \<in> set evs. call_of ev = CGetConn \<or> call_of ev = CPutConn"
    using acquire_checked_existing[OF en reg, of env] fail(1) by auto
  have k: "calls CParams (trace s2) = calls CParams (trace s)"
    "calls CNewPool (trace s2) = calls CNewPool (trace s)"
    using evs(2) by (auto simp: evs(1) calls_def filter_empty_conv)
  have f: "connection_pools s2 = connection_pools s" "pool_settings s2 = pool_settings s"
    by (simp_all add: evs(1))
  have cl: "cleanup_connections env w s2 = (Inr True, rebuilt w p p' st s2)"
    using reg par new st by (intro cleanup_connections_rebuilds en age inst) (simp_all add: k f)
  have g: "pool_getconn env w (rebuilt w p p' st s2) = getconn env p' (rebuilt w p p' st s2)"
    using en by (simp add: pool_getconn_def pool_registered rebuilt_fields)
  have "get_new_connection env w s = getconn env p' (rebuilt w p p' st s2)"
    using fail by (simp add: get_new_connection_def pool_existing[OF en reg] acquire_handler_def cl g)
  then show ?thesis
    by (simp add: getconn_def trace_emit emit_fields rebuilt_fields f
        calls_append calls_Cons calls_Nil)
qed

text \<open>
  Claim C8. The alias has a pool and the acquisition in the \<^verbatim>\<open>try\<close> block fails with an error
  whose text contains "too many clients already". Then \<open>get_new_connection\<close> removes the
  pool from the registry, closes it (whatever the close answers: the environment's answer
  to it is not constrained), sleeps half a second, and the next access to the pool builds
  a new one from the wrapper's own settings and registers it (here: when the constructor
  and its preparation succeed). Exactly one acquisition from the new pool follows and its
  answer, a connection or an error, is the result: nothing is closed or rebuilt a second
  time. Whatever the environment answers, one call closes at most one pool. The pooled
  path makes no retries of its own before the recovery.
\<close>

theorem emergency_recovery_once:
  assumes en: "wrapper_alias w \<noteq> NO_DB_ALIAS" "OPTIONS_pool (settings_dict w) \<noteq> None"
    and reg: "connection_pools s (wrapper_alias w) = Some p"
    and fail: "acquire_checked env w s = (Inl e, s2)" "too_many_clients e"
    and age: "CONN_MAX_AGE (settings_dict w) = None \<or> CONN_MAX_AGE (settings_dict w) = Some 0"
    and inst: "psycopg_pool_installed env"
    and par: "connection_params_out env (calls CParams (trace s)) = None"
    and new: "new_pool_out env (calls CNewPool (trace s)) = Inr p'"
    and st: "map_of (pool_settings s) (wrapper_alias w) = Some st"
  shows "fst (get_new_connection env w s) = getconn_out env (calls CGetConn (trace s2))
    \<and> trace (snd (get_new_connection env w s)) = trace s2 @
         [ClosePool (pool_id p), Sleep (1 / 2), GetConnectionParams,
          NewPool (wrapper_alias w) (min_connections w) (max_connections w)
            (wrapper_max_overflow w) (timeout w)
            (case CONN_HEALTH_CHECKS (settings_dict w) of None \<Rightarrow> True | Some b \<Rightarrow> b)
            (case OPTIONS_pool (settings_dict w) of None \<Rightarrow> [] | Some kw \<Rightarrow> kw),
          GetConn (pool_id p')]
    \<and> connection_pools (snd (get_new_connection env w s))
         = (connection_pools s)(wrapper_alias w \<mapsto> p')
    \<and> calls CClosePool (trace (snd (get_new_connection env w s)))
         \<le> calls CClosePool (trace s) + 1"
  using get_new_connection_recovers[OF assms] closes_get_new_connection[of env w s]
  by simp


lemma world_pooled_eq:
  "world_pooled =
     \<lparr>connection_pools = [Some ''default'' \<mapsto> pool0],
      pool_settings = [(Some ''default'',
         [(''min_connections'', PInt 20), (''max_connections'', PInt 100),
          (''max_overflow'', PInt 10), (''timeout'', PInt 3000),
          (''created_at'', PDatetime 0)])],
      pool_monitor = True, pools = Map.empty, clock = 0,
      trace = [StartMonitor, GetConnectionParams, default_NewPool]\<rparr>"
proof -
  have "world_pooled = snd (pool quiet_env wrapper_default world_init)"
    by (simp add: world_pooled_def)
  also have "\<dots> = \<lparr>connection_pools = [Some ''default'' \<mapsto> pool0],
      pool_settings = [(Some ''default'',
         [(''min_connections'', PInt 20), (''max_connections'', PInt 100),
          (''max_overflow'', PInt 10), (''timeout'', PInt 3000),
          (''created_at'', PDatetime 0)])],
      pool_monitor = True, pools = Map.empty, clock = 0,
      trace = [StartMonitor, GetConnectionParams, default_NewPool]\<rparr>"
    using wrapper_default_enabled
    by (simp add: pool_def wrapper_default_max_age wrapper_default_alias world_init_eq
        quiet_env_def get_connection_params_def ConnectionPool_def calls_def emit_def pool0_def
        Let_def default_NewPool_def wrapper_default_def init_def get_default_def
        pooled_settings_def plain_settings_def)
  finally show ?thesis .
qed

lemma wrapper_default_fields:
  "min_connections wrapper_default = 20" "max_connections wrapper_default = 100"
  "wrapper_max_overflow wrapper_default = 10" "timeout wrapper_default = 3000"
  "CONN_HEALTH_CHECKS (settings_dict wrapper_default) = None"
  "OPTIONS_pool (settings_dict wrapper_default) = Some []"
  by (simp_all add: wrapper_default_def init_def Let_def get_default_def pooled_settings_def
      plain_settings_def)

text \<open>
  The pool is exhausted before and after the recovery: one close, one rebuild, and the
  second failure is raised.
\<close>

theorem emergency_recovery_once_witness:
  "fst (get_new_connection env_exhausted wrapper_default world_pooled) = Inl too_many_clients_error
   \<and> trace (snd (get_new_connection env_exhausted wrapper_default world_pooled)) =
       [StartMonitor, GetConnectionParams, default_NewPool, GetConn 0, ClosePool 0,
        Sleep (1 / 2), GetConnectionParams, default_NewPool, GetConn 1]
   \<and> connection_pools (snd (get_new_connection env_exhausted wrapper_default world_pooled))
        (Some ''default'') = Some (pool0\<lparr>pool_id := 1\<rparr>)"
proof -
  let ?st = "[(''min_connections'', PInt 20), (''max_connections'', PInt 100),
          (''max_overflow'', PInt 10), (''timeout'', PInt 3000),
          (''created_at'', PDatetime 0)]"
  have fail: "acquire_checked env_exhausted wrapper_default world_pooled
      = (Inl too_many_clients_error, emit (GetConn 0) world_pooled)"
    using world_pooled_pool
    by (simp add: acquire_checked_def pool_getconn_def pool_registered wrapper_default_enabled
        getconn_def env_exhausted_def pool0_def)
  have age: "CONN_MAX_AGE (settings_dict wrapper_default) = None
      \<or> CONN_MAX_AGE (settings_dict wrapper_default) = Some 0"
    by (simp add: wrapper_default_max_age)
  have inst: "psycopg_pool_installed env_exhausted"
    by (simp add: env_exhausted_def quiet_env_def)
  have par: "connection_params_out env_exhausted (calls CParams (trace world_pooled)) = None"
    by (simp add: env_exhausted_def quiet_env_def)
  have new: "new_pool_out env_exhausted (calls CNewPool (trace world_pooled))
      = Inr (pool0\<lparr>pool_id := 1\<rparr>)"
    by (simp add: env_exhausted_def quiet_env_def world_pooled_eq calls_def default_NewPool_def
        pool0_def)
  have st: "map_of (pool_settings world_pooled) (wrapper_alias wrapper_default) = Some ?st"
    by (simp add: world_pooled_eq wrapper_default_alias)
  from emergency_recovery_once[OF wrapper_default_enabled world_pooled_pool fail
      too_many_clients_error_transient age inst par new st]
  show ?thesis
    by (simp add: trace_emit wrapper_default_alias wrapper_default_fields world_pooled_eq
        default_NewPool_def pool0_def env_exhausted_def)
qed

section \<open>Returning a connection\<close>

lemma close_try_existing:
  assumes "wrapper_alias w \<noteq> NO_DB_ALIAS" "OPTIONS_pool (settings_dict w) \<noteq> None"
    and "connection_pools s (wrapper_alias w) = Some p"
  shows "close_try env w c s =
     (case closed c of
        None \<Rightarrow> (Some (AttributeError ''closed''), s)
      | Some True \<Rightarrow> (None, s)
      | Some False \<Rightarrow> (putconn_out env (calls CPutConn (trace s)),
                        emit (PutConn (pool_id p) c False) s))"
  using assms(3)
  by (simp add: close_try_def pool_putconn_def pool_registered[OF assms(1,2)] putconn_def
      split: option.splits bool.splits)

lemma close_existing:
  assumes "wrapper_alias w \<noteq> NO_DB_ALIAS" "OPTIONS_pool (settings_dict w) \<noteq> None"
    and "connection_pools s (wrapper_alias w) = Some p"
    and "connection w = Some c"
  shows "close env w s =
     ((None, w\<lparr>connection := None\<rparr>),
      (case close_try env w c s of
         (None, s2) \<Rightarrow> s2
       | (Some e, s2) \<Rightarrow> close_handler env c e s2))"
  using assms(4)
  by (simp add: close_def pool_existing[OF assms(1,2,3)] split: prod.splits option.splits)

text \<open>
  Claim C10. The wrapper holds a connection and its alias has a pool. Then \<open>close\<close> returns
  without raising and the wrapper's \<^verbatim>\<open>connection\<close> is \<^verbatim>\<open>None\<close> afterwards, on every path:
  the connection was already closed (nothing else happens); it was returned to the pool;
  returning it raised, and then the error is logged and the connection itself is closed,
  whatever that close answers; or the handle has no \<^verbatim>\<open>closed\<close> attribute, which is logged.
\<close>

theorem close_clears_connection:
  assumes "wrapper_alias w \<noteq> NO_DB_ALIAS" "OPTIONS_pool (settings_dict w) \<noteq> None"
    and "connection_pools s (wrapper_alias w) = Some p"
    and "connection w = Some c"
  shows "fst (close env w s) = (None, w\<lparr>connection := None\<rparr>)
    \<and> (closed c = Some True \<longrightarrow> snd (close env w s) = s)
    \<and> (closed c = Some False \<and> putconn_out env (calls CPutConn (trace s)) = None
         \<longrightarrow> snd (close env w s) = emit (PutConn (pool_id p) c False) s)
    \<and> (closed c = Some False \<and> putconn_out env (calls CPutConn (trace s)) = Some e
         \<longrightarrow> snd (close env w s) =
              emit (ConnClose c) (emit (Log (ReturnError e)) (emit (PutConn (pool_id p) c False) s)))
    \<and> (closed c = None
         \<longrightarrow> snd (close env w s) = emit (Log (ReturnError (AttributeError ''closed''))) s)"
  by (simp add: close_existing[OF assms] close_try_existing[OF assms(1,2,3)] close_handler_def
      conn_close_def Let_def)

text \<open>
  Returning the connection raises, and closing it raises too: both are absorbed.
\<close>

theorem close_clears_connection_witness:
  "fst (close env_putconn_fails wrapper_holding world_pooled)
     = (None, wrapper_holding\<lparr>connection := None\<rparr>)
   \<and> connection (snd (fst (close env_putconn_fails wrapper_holding world_pooled))) = None
   \<and> trace (snd (close env_putconn_fails wrapper_holding world_pooled)) =
       [StartMonitor, GetConnectionParams, default_NewPool,
        PutConn 0 conn_live False, Log (ReturnError broken_error), ConnClose conn_live]"
proof -
  have en: "wrapper_alias wrapper_holding \<noteq> NO_DB_ALIAS"
    "OPTIONS_pool (settings_dict wrapper_holding) \<noteq> None"
    using wrapper_default_enabled by (simp_all add: wrapper_holding_def)
  have reg: "connection_pools world_pooled (wrapper_alias wrapper_holding) = Some pool0"
    using world_pooled_pool by (simp add: wrapper_holding_def)
  have c: "connection wrapper_holding = Some conn_live"
    by (simp add: wrapper_holding_def)
  have h: "closed conn_live = Some False
      \<and> putconn_out env_putconn_fails (calls CPutConn (trace world_pooled)) = Some broken_error"
    by (simp add: conn_live_def env_putconn_fails_def)
  from close_clears_connection[OF en reg c, of env_putconn_fails broken_error] h
  show ?thesis
    by (simp add: trace_emit world_pooled_eq pool0_def)
qed

section \<open>The status report\<close>

lemma usage_percent_existing:
  assumes "pool env w s1 = (Inr (Some p), s1)"
  shows "usage_percent env w s1 =
    (if max_size p > 0 then
       (case int_truediv (busy p) (max_size p) of
          Inl e \<Rightarrow> Inl e
        | Inr q \<Rightarrow>
            (case float_mul_int q 100 of Inl e \<Rightarrow> Inl e | Inr u \<Rightarrow> Inr (FloatNum u)))
     else Inr (IntNum 0), s1)"
proof -
  have attr: "pool_attr env w f s1 = (Inr (f p), s1)" for f :: "pool \<Rightarrow> int"
    by (simp add: pool_attr_def assms)
  show ?thesis
    by (simp add: usage_percent_def bind_def attr)
qed

lemma get_pool_status_active:
  assumes "pool env w s = (Inr (Some p), s1)"
    and "usage_percent env w s1 = (Inr v, s1)"
  shows "get_pool_status env w s =
    (Inr (Active
       \<lparr>st_size = size p, st_min_size = min_size p, st_max_size = max_size p,
        st_max_overflow = max_overflow p, st_overflow = overflow p, st_idle = idle p,
        st_busy = busy p, st_usage_percent = v,
        st_created_at =
          (case map_of (pool_settings s1) (wrapper_alias w) of
             None \<Rightarrow> None
           | Some st \<Rightarrow> map_of st ''created_at'')\<rparr>), s1)"
proof -
  have again: "pool env w s1 = (Inr (Some p), s1)"
    using assms(1) by (rule pool_again)
  have attr: "pool_attr env w f s1 = (Inr (f p), s1)" for f :: "pool \<Rightarrow> int"
    by (simp add: pool_attr_def again)
  show ?thesis
    by (simp add: get_pool_status_def bind_def assms attr)
qed

text \<open>When the division or the product raises, so does the report.\<close>

lemma get_pool_status_raises:
  assumes "pool env w s = (Inr (Some p), s1)"
    and "usage_percent env w s1 = (Inl e, s1)"
  shows "get_pool_status env w s = (Inl e, s1)"
proof -
  have again: "pool env w s1 = (Inr (Some p), s1)"
    using assms(1) by (rule pool_again)
  have attr: "pool_attr env w f s1 = (Inr (f p), s1)" for f :: "pool \<Rightarrow> int"
    by (simp add: pool_attr_def again)
  show ?thesis
    by (simp add: get_pool_status_def bind_def assms attr)
qed


lemma wrapper_small_eq:
  "wrapper_small =
     \<lparr>settings_dict = small_settings, wrapper_alias = Some ''default'',
      min_connections = 2, max_connections = 10, wrapper_max_overflow = 10, timeout = 3000,
      max_conn_age = 1800, recycle_threshold = 4 / 5, connection = None\<rparr>"
  by (simp add: wrapper_small_def init_def Let_def get_default_def small_settings_def
      pooled_settings_def plain_settings_def)

lemma small_init_eq:
  "world_small_init =
     \<lparr>connection_pools = Map.empty,
      pool_settings = [(Some ''default'',
         [(''min_connections'', PInt 2), (''max_connections'', PInt 10),
          (''max_overflow'', PInt 10), (''timeout'', PInt 3000),
          (''created_at'', PDatetime 0)])],
      pool_monitor = True, pools = Map.empty, clock = 0, trace = [StartMonitor]\<rparr>"
  by (simp add: world_small_init_def init_def Let_def NO_DB_ALIAS_def small_settings_def
      pooled_settings_def plain_settings_def empty_world_def get_default_def
      start_pool_monitor_def emit_def)

lemma small_enabled:
  "wrapper_alias wrapper_small \<noteq> NO_DB_ALIAS"
  "OPTIONS_pool (settings_dict wrapper_small) \<noteq> None"
  by (simp_all add: wrapper_small_eq NO_DB_ALIAS_def small_settings_def pooled_settings_def)

lemma world_small_eq:
  "world_small =
     \<lparr>connection_pools = [Some ''default'' \<mapsto> pool_busy],
      pool_settings = [(Some ''default'',
         [(''min_connections'', PInt 2), (''max_connections'', PInt 10),
          (''max_overflow'', PInt 10), (''timeout'', PInt 3000),
          (''created_at'', PDatetime 0)])],
      pool_monitor = True, pools = Map.empty, clock = 0,
      trace = [StartMonitor, GetConnectionParams, small_NewPool]\<rparr>"
  using small_enabled
  by (simp add: world_small_def small_init_eq pool_def wrapper_small_eq small_settings_def
      pooled_settings_def plain_settings_def env_busy_def quiet_env_def
      get_connection_params_def ConnectionPool_def calls_def emit_def Let_def small_NewPool_def)





lemma int_truediv_7_100:
  "int_truediv 7 100 = Inr (Finite (1261007895663739 / 18014398509481984))"
  by code_simp

lemma float_mul_int_7_100:
  "float_mul_int (Finite (1261007895663739 / 18014398509481984)) 100
     = Inr (Finite (7881299347898369 / 1125899906842624))"
  by code_simp

lemma pool_env_seven:
  "fst (pool env_seven wrapper_default world_init) = Inr (Some pool_seven)"
  using wrapper_default_enabled
  by (simp add: pool_def wrapper_default_max_age wrapper_default_alias world_init_eq
      env_seven_def quiet_env_def get_connection_params_def ConnectionPool_def calls_def
      emit_def Let_def)

text \<open>
  The two roundings show in the report: with seven busy connections of a hundred the
  quotient \<^verbatim>\<open>7 / 100\<close> is rounded up, and the product with 100 is the float next above 7,
  which Python prints as \<^verbatim>\<open>7.000000000000001\<close>.
\<close>

lemma get_pool_status_seven:
  "\<exists>r. fst (get_pool_status env_seven wrapper_default world_init) = Inr (Active r)
     \<and> st_busy r = 7 \<and> st_max_size r = 100
     \<and> st_usage_percent r = FloatNum (Finite (7881299347898369 / 1125899906842624))
     \<and> 7881299347898369 / 1125899906842624 = (7 + 1 / 2 ^ 50 :: rat)"
proof -
  obtain s1 where p: "pool env_seven wrapper_default world_init = (Inr (Some pool_seven), s1)"
    using pool_env_seven by (cases "pool env_seven wrapper_default world_init") simp
  have again: "pool env_seven wrapper_default s1 = (Inr (Some pool_seven), s1)"
    using p by (rule pool_again)
  have u: "usage_percent env_seven wrapper_default s1
      = (Inr (FloatNum (Finite (7881299347898369 / 1125899906842624))), s1)"
    by (simp add: usage_percent_existing[OF again] pool_seven_def int_truediv_7_100
        float_mul_int_7_100)
  show ?thesis
    by (simp add: get_pool_status_active[OF p u] pool_seven_def)
qed

section \<open>Validation before a connection is handed out\<close>

lemma tp_get_new_connection_probe_ok:
  assumes "tp_lookup_pool env w s = (Inr p, s1)"
    and "getconn_out env (calls CGetConn (trace s1)) = Inr c"
    and "probe_out env (calls CProbe (trace s1)) = None"
  shows "tp_get_new_connection env w s =
    ((Inr c, w\<lparr>tp_pool := Some p\<rparr>), emit (Probe c) (emit (GetConn (pool_id p)) s1))"
  using assms
  by (simp add: tp_get_new_connection_def getconn_def probe_def Let_def trace_emit
      calls_append calls_Cons calls_Nil)

lemma tp_get_new_connection_probe_fails:
  assumes "tp_lookup_pool env w s = (Inr p, s1)"
    and "getconn_out env (calls CGetConn (trace s1)) = Inr c"
    and "probe_out env (calls CProbe (trace s1)) = Some e"
  shows "tp_get_new_connection env w s =
    (case putconn_out env (calls CPutConn (trace s1)) of
       Some e' \<Rightarrow> ((Inl e', w\<lparr>tp_pool := Some p\<rparr>),
          emit (PutConn (pool_id p) c True) (emit (Probe c) (emit (GetConn (pool_id p)) s1)))
     | None \<Rightarrow> ((getconn_out env (calls CGetConn (trace s1) + 1), w\<lparr>tp_pool := Some p\<rparr>),
          emit (GetConn (pool_id p)) (emit (PutConn (pool_id p) c True)
            (emit (Probe c) (emit (GetConn (pool_id p)) s1)))))"
  using assms
  by (simp add: tp_get_new_connection_def getconn_def probe_def putconn_def Let_def trace_emit
      calls_append calls_Cons calls_Nil split: option.splits)

lemma get_new_connection_open_flag:
  assumes "wrapper_alias w \<noteq> NO_DB_ALIAS" "OPTIONS_pool (settings_dict w) \<noteq> None"
    and "connection_pools s (wrapper_alias w) = Some p"
    and "getconn_out env (calls CGetConn (trace s)) = Inr c"
    and "closed c = Some False"
  shows "get_new_connection env w s = (Inr c, emit (GetConn (pool_id p)) s)"
  using assms(3,4,5)
  by (simp add: get_new_connection_def pool_existing[OF assms(1,2,3)] acquire_checked_def
      pool_getconn_def pool_registered[OF assms(1,2)] getconn_def)

lemma get_new_connection_closed_flag:
  assumes "wrapper_alias w \<noteq> NO_DB_ALIAS" "OPTIONS_pool (settings_dict w) \<noteq> None"
    and "connection_pools s (wrapper_alias w) = Some p"
    and "getconn_out env (calls CGetConn (trace s)) = Inr c"
    and "closed c \<noteq> Some False"
    and "putconn_out env (calls CPutConn (trace s)) = None"
    and "\<not> transient_failure (getconn_out env (calls CGetConn (trace s) + 1))"
  shows "get_new_connection env w s =
    (getconn_out env (calls CGetConn (trace s) + 1),
     emit (GetConn (pool_id p)) (emit (PutConn (pool_id p) c True) (emit (GetConn (pool_id p)) s)))"
  using assms(3-7)
  by (auto simp: get_new_connection_def pool_existing[OF assms(1,2,3)] acquire_checked_def
      pool_getconn_def pool_putconn_def pool_registered[OF assms(1,2)] getconn_def putconn_def
      emit_fields trace_emit calls_append calls_Cons calls_Nil acquire_handler_def
      transient_failure_def split: sum.splits)

lemma world_pooled_calls:
  "calls CGetConn (trace world_pooled) = 0" "calls CPutConn (trace world_pooled) = 0"
  "calls CProbe (trace world_pooled) = 0" "calls CClosePool (trace world_pooled) = 0"
  "calls CParams (trace world_pooled) = 1" "calls CNewPool (trace world_pooled) = 1"
  by (simp_all add: world_pooled_eq calls_def default_NewPool_def)

lemma acquire_checked_closed_then_exhausted:
  "acquire_checked env_closed_then_exhausted wrapper_default world_pooled =
     (Inl too_many_clients_error,
      emit (GetConn 0) (emit (PutConn 0 conn_closed True) (emit (GetConn 0) world_pooled)))"
  using world_pooled_pool
  by (simp add: acquire_checked_def pool_getconn_def pool_putconn_def pool_registered
      wrapper_default_enabled getconn_def putconn_def emit_fields trace_emit calls_append
      calls_Cons calls_Nil env_closed_then_exhausted_def quiet_env_def conn_closed_def pool0_def
      world_pooled_calls)

text \<open>
  Claim C2 as stated fails for base.py. First, its check before handing out a pooled
  connection is the connection's own \<^verbatim>\<open>closed\<close> flag, not a round trip: in an environment
  where every probe would fail, a connection whose flag says open is handed to the caller
  and no probe is in the trace. Second, when the connection is discarded and the
  replacement acquisition fails with "too many clients already", the handler recovers and
  acquires once more, from the rebuilt pool: two acquisitions follow the discard, not one.
\<close>

theorem get_new_connection_probe_counterexample:
  "get_new_connection env_dead wrapper_default world_pooled
     = (Inr conn_live, emit (GetConn 0) world_pooled)
   \<and> Probe conn_live \<notin> set (trace (emit (GetConn 0) world_pooled))
   \<and> probe_out env_dead 0 = Some broken_error
   \<and> fst (get_new_connection env_closed_then_exhausted wrapper_default world_pooled)
       = Inr \<lparr>conn_id = 2, closed = Some False\<rparr>
   \<and> trace (snd (get_new_connection env_closed_then_exhausted wrapper_default world_pooled))
       = [StartMonitor, GetConnectionParams, default_NewPool,
          GetConn 0, PutConn 0 conn_closed True, GetConn 0,
          ClosePool 0, Sleep (1 / 2), GetConnectionParams, default_NewPool, GetConn 1]"
proof -
  have g: "getconn_out env_dead (calls CGetConn (trace world_pooled)) = Inr conn_live"
    by (simp add: env_dead_def quiet_env_def world_pooled_eq calls_def default_NewPool_def
        conn_live_def)
  have a: "get_new_connection env_dead wrapper_default world_pooled
      = (Inr conn_live, emit (GetConn 0) world_pooled)"
    using get_new_connection_open_flag[OF wrapper_default_enabled world_pooled_pool g]
    by (simp add: conn_live_def pool0_def)
  have b: "Probe conn_live \<notin> set (trace (emit (GetConn 0) world_pooled))"
    by (simp add: trace_emit world_pooled_eq default_NewPool_def)
  have c: "probe_out env_dead 0 = Some broken_error"
    by (simp add: env_dead_def)
  have age: "CONN_MAX_AGE (settings_dict wrapper_default) = None
      \<or> CONN_MAX_AGE (settings_dict wrapper_default) = Some 0"
    by (simp add: wrapper_default_max_age)
  have inst: "psycopg_pool_installed env_closed_then_exhausted"
    by (simp add: env_closed_then_exhausted_def quiet_env_def)
  have par: "connection_params_out env_closed_then_exhausted
      (calls CParams (trace world_pooled)) = None"
    by (simp add: env_closed_then_exhausted_def quiet_env_def)
  have new: "new_pool_out env_closed_then_exhausted (calls CNewPool (trace world_pooled))
      = Inr (pool0\<lparr>pool_id := 1\<rparr>)"
    by (simp add: env_closed_then_exhausted_def quiet_env_def world_pooled_eq calls_def
        default_NewPool_def pool0_def)
  have st: "map_of (pool_settings world_pooled) (wrapper_alias wrapper_default)
      = Some [(''min_connections'', PInt 20), (''max_connections'', PInt 100),
          (''max_overflow'', PInt 10), (''timeout'', PInt 3000),
          (''created_at'', PDatetime 0)]"
    by (simp add: world_pooled_eq wrapper_default_alias)
  from get_new_connection_recovers[OF wrapper_default_enabled world_pooled_pool
      acquire_checked_closed_then_exhausted too_many_clients_error_transient age inst par new st]
  have d: "fst (get_new_connection env_closed_then_exhausted wrapper_default world_pooled)
       = Inr \<lparr>conn_id = 2, closed = Some False\<rparr>"
    "trace (snd (get_new_connection env_closed_then_exhausted wrapper_default world_pooled))
       = [StartMonitor, GetConnectionParams, default_NewPool,
          GetConn 0, PutConn 0 conn_closed True, GetConn 0,
          ClosePool 0, Sleep (1 / 2), GetConnectionParams, default_NewPool, GetConn 1]"
    by (simp_all add: trace_emit wrapper_default_alias wrapper_default_fields world_pooled_eq
        default_NewPool_def pool0_def env_closed_then_exhausted_def calls_append calls_Cons
        calls_Nil)
  from a b c d show ?thesis by simp
qed

text \<open>
  Claim C2, amended. In database_wrapper.py the acquired connection is probed with
  \<^verbatim>\<open>SELECT 1\<close>; when the probe passes it is handed out; when the probe fails it is put
  back with \<^verbatim>\<open>close=True\<close> and, that done, exactly one replacement is acquired from the same
  pool, whose answer, a connection (not probed) or an error, goes to the caller. In
  base.py the check is the local \<^verbatim>\<open>closed\<close> flag, with no round trip: a connection whose
  flag says open is handed out; otherwise it is put back with \<^verbatim>\<open>close=True\<close> and one
  replacement is acquired from the same pool, whose answer goes to the caller unless it is
  a "too many clients already" error (the recovery of claim C8 then follows).
\<close>

theorem get_new_connection_validation:
  "(tp_lookup_pool env w2 t = (Inr q, t1)
      \<and> getconn_out env (calls CGetConn (trace t1)) = Inr c
      \<and> probe_out env (calls CProbe (trace t1)) = None
    \<longrightarrow> tp_get_new_connection env w2 t =
          ((Inr c, w2\<lparr>tp_pool := Some q\<rparr>), emit (Probe c) (emit (GetConn (pool_id q)) t1)))
   \<and> (tp_lookup_pool env w2 t = (Inr q, t1)
      \<and> getconn_out env (calls CGetConn (trace t1)) = Inr c
      \<and> probe_out env (calls CProbe (trace t1)) = Some e
      \<and> putconn_out env (calls CPutConn (trace t1)) = None
    \<longrightarrow> tp_get_new_connection env w2 t =
          ((getconn_out env (calls CGetConn (trace t1) + 1), w2\<lparr>tp_pool := Some q\<rparr>),
           emit (GetConn (pool_id q)) (emit (PutConn (pool_id q) c True)
             (emit (Probe c) (emit (GetConn (pool_id q)) t1)))))
   \<and> (wrapper_alias w \<noteq> NO_DB_ALIAS \<and> OPTIONS_pool (settings_dict w) \<noteq> None
      \<and> connection_pools s (wrapper_alias w) = Some p
      \<and> getconn_out env (calls CGetConn (trace s)) = Inr c
      \<and> closed c = Some False
    \<longrightarrow> get_new_connection env w s = (Inr c, emit (GetConn (pool_id p)) s))
   \<and> (wrapper_alias w \<noteq> NO_DB_ALIAS \<and> OPTIONS_pool (settings_dict w) \<noteq> None
      \<and> connection_pools s (wrapper_alias w) = Some p
      \<and> getconn_out env (calls CGetConn (trace s)) = Inr c
      \<and> closed c \<noteq> Some False
      \<and> putconn_out env (calls CPutConn (trace s)) = None
      \<and> \<not> transient_failure (getconn_out env (calls CGetConn (trace s) + 1))
    \<longrightarrow> get_new_connection env w s =
          (getconn_out env (calls CGetConn (trace s) + 1),
           emit (GetConn (pool_id p)) (emit (PutConn (pool_id p) c True)
             (emit (GetConn (pool_id p)) s))))"
  using tp_get_new_connection_probe_ok[of env w2 t q t1 c]
    tp_get_new_connection_probe_fails[of env w2 t q t1 c e]
    get_new_connection_open_flag[of w s p env c]
    get_new_connection_closed_flag[of w s p env c]
  by simp

lemma world_tp_eq:
  "world_tp = empty_world\<lparr>pools := [Some ''default'' \<mapsto> pool0],
                          trace := [NewThreadedPool (Some ''default'') 1 15]\<rparr>"
  by (simp add: world_tp_def tp_lookup_pool_def empty_world_def ThreadedConnectionPool_def
      quiet_env_def calls_def pool0_def tp_wrapper_default_def emit_def)

lemma world_tp_calls:
  "calls CGetConn (trace world_tp) = 0" "calls CPutConn (trace world_tp) = 0"
  "calls CProbe (trace world_tp) = 0"
  by (simp_all add: world_tp_eq calls_def)

lemma tp_lookup_world_tp:
  "tp_lookup_pool env tp_wrapper_default world_tp = (Inr pool0, world_tp)"
  using world_tp_pool by (rule tp_lookup_pool_existing)

text \<open>
  The four cases at concrete inputs: probe passed, probe failed, flag open in an
  environment where probes fail, flag closed.
\<close>

theorem get_new_connection_validation_witness:
  "tp_get_new_connection quiet_env tp_wrapper_default world_tp =
     ((Inr conn_live, tp_wrapper_default\<lparr>tp_pool := Some pool0\<rparr>),
      emit (Probe conn_live) (emit (GetConn 0) world_tp))
   \<and> tp_get_new_connection env_dead tp_wrapper_default world_tp =
     ((Inr \<lparr>conn_id = 1, closed = Some False\<rparr>, tp_wrapper_default\<lparr>tp_pool := Some pool0\<rparr>),
      emit (GetConn 0) (emit (PutConn 0 conn_live True)
        (emit (Probe conn_live) (emit (GetConn 0) world_tp))))
   \<and> get_new_connection env_dead wrapper_default world_pooled
       = (Inr conn_live, emit (GetConn 0) world_pooled)
   \<and> get_new_connection env_closed_first wrapper_default world_pooled
       = (Inr \<lparr>conn_id = 1, closed = Some False\<rparr>,
          emit (GetConn 0) (emit (PutConn 0 conn_closed True) (emit (GetConn 0) world_pooled)))"
proof -
  note en = wrapper_default_enabled
  have 1: "tp_get_new_connection quiet_env tp_wrapper_default world_tp =
     ((Inr conn_live, tp_wrapper_default\<lparr>tp_pool := Some pool0\<rparr>),
      emit (Probe conn_live) (emit (GetConn 0) world_tp))"
    using get_new_connection_validation[of quiet_env tp_wrapper_default world_tp pool0 world_tp
        conn_live broken_error wrapper_default world_pooled pool0]
    by (simp add: tp_lookup_world_tp world_tp_calls quiet_env_def conn_live_def pool0_def)
  have 2: "tp_get_new_connection env_dead tp_wrapper_default world_tp =
     ((Inr \<lparr>conn_id = 1, closed = Some False\<rparr>, tp_wrapper_default\<lparr>tp_pool := Some pool0\<rparr>),
      emit (GetConn 0) (emit (PutConn 0 conn_live True)
        (emit (Probe conn_live) (emit (GetConn 0) world_tp))))"
    using get_new_connection_validation[of env_dead tp_wrapper_default world_tp pool0 world_tp
        conn_live broken_error wrapper_default world_pooled pool0]
    by (simp add: tp_lookup_world_tp world_tp_calls env_dead_def quiet_env_def conn_live_def
        pool0_def)
  have 3: "get_new_connection env_dead wrapper_default world_pooled
       = (Inr conn_live, emit (GetConn 0) world_pooled)"
    using get_new_connection_validation[of env_dead tp_wrapper_default world_tp pool0 world_tp
        conn_live broken_error wrapper_default world_pooled pool0] en world_pooled_pool
    by (simp add: world_pooled_calls env_dead_def quiet_env_def conn_live_def pool0_def)
  have 4: "get_new_connection env_closed_first wrapper_default world_pooled
       = (Inr \<lparr>conn_id = 1, closed = Some False\<rparr>,
          emit (GetConn 0) (emit (PutConn 0 conn_closed True) (emit (GetConn 0) world_pooled)))"
    using get_new_connection_validation[of env_closed_first tp_wrapper_default world_tp pool0
        world_tp conn_closed broken_error wrapper_default world_pooled pool0] en world_pooled_pool
    by (simp add: world_pooled_calls env_closed_first_def quiet_env_def conn_closed_def pool0_def
        transient_failure_def)
  from 1 2 3 4 show ?thesis by simp
qed

section \<open>The monitor\<close>

lemma check_pool_no_threshold:
  assumes "connection_pools s a = Some p"
    and "map_of st ''max_connections'' = Some mx"
    and "map_of (pool_settings s) a = Some st'"
    and "map_of st' ''recycle_threshold'' = None"
  shows "check_pool env now a st s = (Some (KeyError (repr_str ''recycle_threshold'')), s)"
  using assms by (simp add: check_pool_def getitem_def)

lemma check_all_pools_no_threshold:
  assumes "pool_settings s = (a, st) # items"
    and "connection_pools s a = Some p"
    and "map_of st ''max_connections'' = Some mx"
    and "map_of st ''recycle_threshold'' = None"
  shows "check_all_pools env s = (Some (KeyError (repr_str ''recycle_threshold'')), s)"
proof -
  have "map_of (pool_settings s) a = Some st"
    by (simp add: assms(1))
  then have "check_pool env (clock s) a st s = (Some (KeyError (repr_str ''recycle_threshold'')), s)"
    using assms(2,3,4) by (intro check_pool_no_threshold) simp_all
  then show ?thesis
    by (simp add: check_all_pools_def assms(1))
qed

lemma monitor_turn_no_threshold:
  assumes "pool_settings s = (a, st) # items"
    and "connection_pools s a = Some p"
    and "map_of st ''max_connections'' = Some mx"
    and "map_of st ''recycle_threshold'' = None"
  shows "monitor_turn env s =
    (None, sleep 300 (emit (Log (MonitorError (KeyError (repr_str ''recycle_threshold'')))) s))"
  by (simp add: monitor_turn_def check_all_pools_no_threshold[OF assms])

lemma monitor_pools_no_threshold:
  assumes "pool_settings s = (a, st) # items"
    and "connection_pools s a = Some p"
    and "map_of st ''max_connections'' = Some mx"
    and "map_of st ''recycle_threshold'' = None"
  shows "fst (monitor_pools env n s) = None
    \<and> connection_pools (snd (monitor_pools env n s)) = connection_pools s
    \<and> pool_settings (snd (monitor_pools env n s)) = pool_settings s
    \<and> clock (snd (monitor_pools env n s)) = clock s + 300 * of_nat n
    \<and> calls CClosePool (trace (snd (monitor_pools env n s))) = calls CClosePool (trace s)
    \<and> calls CResize (trace (snd (monitor_pools env n s))) = calls CResize (trace s)"
  using assms
proof (induction n arbitrary: s)
  case 0
  then show ?case by simp
next
  case (Suc n)
  let ?s1 = "sleep 300 (emit (Log (MonitorError (KeyError (repr_str ''recycle_threshold'')))) s)"
  have t: "monitor_turn env s = (None, ?s1)"
    using Suc.prems by (rule monitor_turn_no_threshold)
  have f: "pool_settings ?s1 = (a, st) # items" "connection_pools ?s1 a = Some p"
    using Suc.prems(1,2) by (simp_all add: sleep_fields emit_fields)
  from Suc.IH[OF f Suc.prems(3,4)] show ?case
    by (simp add: t sleep_fields emit_fields trace_sleep trace_emit calls_append calls_Cons
        calls_Nil algebra_simps)
qed

lemma world_small_settings:
  "pool_settings world_small = [(Some ''default'',
         [(''min_connections'', PInt 2), (''max_connections'', PInt 10),
          (''max_overflow'', PInt 10), (''timeout'', PInt 3000),
          (''created_at'', PDatetime 0)])]"
  "connection_pools world_small (Some ''default'') = Some pool_busy"
  "clock world_small = 0"
  by (simp_all add: world_small_eq)

text \<open>
  Claim C3, evaluated on the code. A wrapper built by \<open>init\<close> with at most 10 connections
  and the default threshold 0.8 has a pool with 9 busy connections, more than 10 times
  0.8. The settings dictionary that \<open>init\<close> stores for the alias has no key
  \<^verbatim>\<open>recycle_threshold\<close> (the threshold lives in an attribute of the wrapper only), so the
  sweep raises \<^verbatim>\<open>KeyError\<close> while it evaluates the capacity condition: nothing is reported
  as nearing capacity and \<^verbatim>\<open>resize\<close> is never called.
\<close>

theorem check_all_pools_capacity_raises:
  "busy pool_busy = 9 \<and> max_connections wrapper_small = 10
   \<and> recycle_threshold wrapper_small = 4 / 5
   \<and> connection_pools world_small (Some ''default'') = Some pool_busy
   \<and> check_all_pools env_busy world_small = (Some recycle_threshold_KeyError, world_small)
   \<and> Log (NearingCapacity (Some ''default'')) \<notin> set (trace (snd (check_all_pools env_busy world_small)))
   \<and> calls CResize (trace (snd (check_all_pools env_busy world_small))) = 0"
proof -
  have c: "check_all_pools env_busy world_small = (Some recycle_threshold_KeyError, world_small)"
    unfolding recycle_threshold_KeyError_def
    by (rule check_all_pools_no_threshold[OF world_small_settings(1,2)]) simp_all
  show ?thesis
    by (simp add: c world_small_settings(2))
       (simp add: pool_busy_def wrapper_small_eq world_small_eq calls_def small_NewPool_def)
qed

text \<open>
  Claim C5, evaluated on the code. The pool was created at time 0 and the maximal age is
  1800 seconds. Twenty turns of the monitor later the clock is at 6000, and the pool is
  still registered and was never closed: each sweep stops with the \<^verbatim>\<open>KeyError\<close> of the
  capacity condition before it reaches the age check. The next access to the pool gets
  the old pool and creates nothing.
\<close>

theorem check_all_pools_aged_pool_stays:
  "map_of (pool_settings world_small) (Some ''default'') =
     Some [(''min_connections'', PInt 2), (''max_connections'', PInt 10),
           (''max_overflow'', PInt 10), (''timeout'', PInt 3000),
           (''created_at'', PDatetime 0)]
   \<and> max_conn_age wrapper_small = 1800
   \<and> fst (monitor_pools env_busy 20 world_small) = None
   \<and> clock (snd (monitor_pools env_busy 20 world_small)) = 6000
   \<and> connection_pools (snd (monitor_pools env_busy 20 world_small)) (Some ''default'')
       = Some pool_busy
   \<and> calls CClosePool (trace (snd (monitor_pools env_busy 20 world_small))) = 0
   \<and> fst (check_all_pools env_busy (snd (monitor_pools env_busy 20 world_small)))
       = Some recycle_threshold_KeyError
   \<and> pool env_busy wrapper_small (snd (monitor_pools env_busy 20 world_small))
       = (Inr (Some pool_busy), snd (monitor_pools env_busy 20 world_small))"
proof -
  let ?s = "snd (monitor_pools env_busy 20 world_small)"
  have m: "fst (monitor_pools env_busy 20 world_small) = None"
    "connection_pools ?s = connection_pools world_small"
    "pool_settings ?s = pool_settings world_small"
    "clock ?s = clock world_small + 300 * of_nat 20"
    "calls CClosePool (trace ?s) = calls CClosePool (trace world_small)"
    using monitor_pools_no_threshold[OF world_small_settings(1,2), of "PInt 10" env_busy 20]
    by simp_all
  have ps: "pool_settings ?s = [(Some ''default'',
         [(''min_connections'', PInt 2), (''max_connections'', PInt 10),
          (''max_overflow'', PInt 10), (''timeout'', PInt 3000),
          (''created_at'', PDatetime 0)])]"
    by (simp add: m(3) world_small_settings(1))
  have cp: "connection_pools ?s (Some ''default'') = Some pool_busy"
    by (simp add: m(2) world_small_settings(2))
  have c: "check_all_pools env_busy ?s = (Some recycle_threshold_KeyError, ?s)"
    unfolding recycle_threshold_KeyError_def
    by (rule check_all_pools_no_threshold[OF ps cp]) simp_all
  have p: "pool env_busy wrapper_small ?s = (Inr (Some pool_busy), ?s)"
    using small_enabled cp by (intro pool_existing) (simp_all add: wrapper_small_eq)
  have k: "calls CClosePool (trace world_small) = 0"
    by (simp add: world_small_eq calls_def small_NewPool_def)
  show ?thesis
    using m(1) cp p
    by (simp add: c m(4,5) k world_small_settings wrapper_small_eq)
qed

lemma wrapper_replica_eq:
  "wrapper_replica = wrapper_small\<lparr>wrapper_alias := Some ''replica''\<rparr>"
  by (simp add: wrapper_replica_def wrapper_small_eq init_def Let_def get_default_def
      small_settings_def pooled_settings_def plain_settings_def)

lemma world_two_eq:
  "world_two =
     \<lparr>connection_pools = [Some ''default'' \<mapsto> pool_busy,
                           Some ''replica'' \<mapsto> pool_busy\<lparr>pool_id := 1\<rparr>],
      pool_settings = [(Some ''default'', small_dict), (Some ''replica'', small_dict)],
      pool_monitor = True, pools = Map.empty, clock = 0,
      trace = [StartMonitor, GetConnectionParams, small_NewPool, GetConnectionParams,
               NewPool (Some ''replica'') 2 10 10 3000 True []]\<rparr>"
proof -
  have i: "world_two_init =
     \<lparr>connection_pools = Map.empty,
      pool_settings = [(Some ''default'', small_dict), (Some ''replica'', small_dict)],
      pool_monitor = True, pools = Map.empty, clock = 0, trace = [StartMonitor]\<rparr>"
    by (simp add: world_two_init_def small_init_eq init_def Let_def NO_DB_ALIAS_def
        small_settings_def pooled_settings_def plain_settings_def get_default_def small_dict_def)
  have p1: "world_two_first =
     \<lparr>connection_pools = [Some ''default'' \<mapsto> pool_busy],
      pool_settings = [(Some ''default'', small_dict), (Some ''replica'', small_dict)],
      pool_monitor = True, pools = Map.empty, clock = 0,
      trace = [StartMonitor, GetConnectionParams, small_NewPool]\<rparr>"
    using small_enabled
    by (simp add: world_two_first_def i pool_def wrapper_small_eq small_settings_def
        pooled_settings_def plain_settings_def env_two_def quiet_env_def
        get_connection_params_def ConnectionPool_def calls_def emit_def Let_def
        small_NewPool_def small_dict_def pool_busy_def)
  show ?thesis
    by (simp add: world_two_def p1 pool_def wrapper_replica_eq wrapper_small_eq
        small_settings_def pooled_settings_def plain_settings_def env_two_def quiet_env_def
        get_connection_params_def ConnectionPool_def calls_def emit_def Let_def
        small_NewPool_def small_dict_def pool_busy_def NO_DB_ALIAS_def fun_upd_twist)
qed

text \<open>
  Claim C4, evaluated on the code. Two wrappers built by \<open>init\<close>, for the aliases
  \<^verbatim>\<open>default\<close> and \<^verbatim>\<open>replica\<close>, each have a pool. The sweep raises the \<^verbatim>\<open>KeyError\<close> of the
  capacity condition while it evaluates the first alias and leaves the loop: what it does
  on the two items is what it does on the first one alone, and the second alias is not
  evaluated in this sweep (evaluated alone, it would raise as well). The monitor's loop
  logs that one error for the whole sweep and sleeps; nothing is logged about either
  alias, and the turn itself raises nothing.
\<close>

theorem check_all_pools_stops_at_first_alias:
  "pool_settings world_two = [(Some ''default'', small_dict), (Some ''replica'', small_dict)]
   \<and> connection_pools world_two (Some ''default'') = Some pool_busy
   \<and> connection_pools world_two (Some ''replica'') = Some (pool_busy\<lparr>pool_id := 1\<rparr>)
   \<and> check_all_pools env_two world_two = (Some recycle_threshold_KeyError, world_two)
   \<and> check_all_pools env_two world_two
       = check_pool env_two (clock world_two) (Some ''default'') small_dict world_two
   \<and> check_pool env_two (clock world_two) (Some ''replica'') small_dict world_two
       = (Some recycle_threshold_KeyError, world_two)
   \<and> monitor_turn env_two world_two
       = (None, sleep 300 (emit (Log (MonitorError recycle_threshold_KeyError)) world_two))
   \<and> trace (snd (monitor_turn env_two world_two))
       = trace world_two @ [Log (MonitorError recycle_threshold_KeyError), Sleep 300]"
proof -
  have ps: "pool_settings world_two = (Some ''default'', small_dict) # [(Some ''replica'', small_dict)]"
    by (simp add: world_two_eq)
  have cp: "connection_pools world_two (Some ''default'') = Some pool_busy"
    "connection_pools world_two (Some ''replica'') = Some (pool_busy\<lparr>pool_id := 1\<rparr>)"
    by (simp_all add: world_two_eq)
  have d: "map_of small_dict ''max_connections'' = Some (PInt 10)"
    "map_of small_dict ''recycle_threshold'' = None"
    by (simp_all add: small_dict_def)
  have m: "map_of (pool_settings world_two) (Some ''default'') = Some small_dict"
    "map_of (pool_settings world_two) (Some ''replica'') = Some small_dict"
    by (simp_all add: ps)
  have c1: "check_pool env_two (clock world_two) (Some ''default'') small_dict world_two
      = (Some (KeyError (repr_str ''recycle_threshold'')), world_two)"
    by (rule check_pool_no_threshold[OF cp(1) d(1) m(1) d(2)])
  have c2: "check_pool env_two (clock world_two) (Some ''replica'') small_dict world_two
      = (Some (KeyError (repr_str ''recycle_threshold'')), world_two)"
    by (rule check_pool_no_threshold[OF cp(2) d(1) m(2) d(2)])
  show ?thesis
    unfolding recycle_threshold_KeyError_def
    by (simp add: cp c1 c2 check_all_pools_no_threshold[OF ps cp(1) d]
        monitor_turn_no_threshold[OF ps cp(1) d] trace_sleep trace_emit)
       (simp add: ps)
qed

section \<open>Settings as the wrapper stores them\<close>

lemma set_update_subset: "set (AList.update k v al) \<subseteq> insert (k, v) (set al)"
  by (induction al) auto

lemma stored_empty: "settings_as_stored empty_world"
  by (simp add: settings_as_stored_def empty_world_def)

lemma stored_init:
  assumes "settings_as_stored s"
  shows "settings_as_stored (snd (init sd a s))"
proof (cases "alias_truthy a \<and> a \<noteq> NO_DB_ALIAS")
  case False
  with assms show ?thesis by (auto simp: init_def Let_def)
next
  case True
  let ?d = "[(''min_connections'', PInt (get_default (MIN_CONNECTIONS sd) 20)),
             (''max_connections'', PInt (get_default (MAX_CONNECTIONS sd) 100)),
             (''max_overflow'', PInt (get_default (MAX_OVERFLOW sd) 10)),
             (''timeout'', PInt (get_default (POOL_TIMEOUT sd) 3000)),
             (''created_at'', PDatetime (clock s))] :: settings"
  have ps: "pool_settings (snd (init sd a s)) = AList.update a ?d (pool_settings s)"
    using True by (simp add: init_def Let_def start_pool_monitor_def emit_fields)
  have d: "map_of ?d ''recycle_threshold'' = None"
    by simp
  show ?thesis
    unfolding settings_as_stored_def ps
    using assms set_update_subset[of a ?d "pool_settings s"] d
    by (auto simp: settings_as_stored_def)
qed

lemma stored_pool:
  assumes "settings_as_stored s"
  shows "settings_as_stored (snd (pool env w s))"
proof -
  have "pool_settings (snd (pool env w s)) = pool_settings s
      \<or> (\<exists>st. map_of (pool_settings s) (wrapper_alias w) = Some st
            \<and> pool_settings (snd (pool env w s))
                = AList.update (wrapper_alias w)
                    (AList.update ''created_at'' (PDatetime (clock s)) st) (pool_settings s))"
    by (auto simp: pool_def get_connection_params_def ConnectionPool_def Let_def emit_fields
        split: option.splits sum.splits)
  then show ?thesis
  proof
    assume "pool_settings (snd (pool env w s)) = pool_settings s"
    with assms show ?thesis by (simp add: settings_as_stored_def)
  next
    assume "\<exists>st. map_of (pool_settings s) (wrapper_alias w) = Some st
            \<and> pool_settings (snd (pool env w s))
                = AList.update (wrapper_alias w)
                    (AList.update ''created_at'' (PDatetime (clock s)) st) (pool_settings s)"
    then obtain st where st: "map_of (pool_settings s) (wrapper_alias w) = Some st"
      and ps: "pool_settings (snd (pool env w s))
                = AList.update (wrapper_alias w)
                    (AList.update ''created_at'' (PDatetime (clock s)) st) (pool_settings s)"
      by blast
    from st have "(wrapper_alias w, st) \<in> set (pool_settings s)"
      by (rule map_of_SomeD)
    with assms have "map_of st ''recycle_threshold'' = None"
      by (auto simp: settings_as_stored_def)
    then have d: "map_of (AList.update ''created_at'' (PDatetime (clock s)) st) ''recycle_threshold'' = None"
      by (simp add: update_conv')
    show ?thesis
      unfolding settings_as_stored_def ps
      using assms d
        set_update_subset[of "wrapper_alias w" "AList.update ''created_at'' (PDatetime (clock s)) st"
          "pool_settings s"]
      by (auto simp: settings_as_stored_def)
  qed
qed

lemma stored_check_pool:
  assumes "settings_as_stored s"
  shows "snd (check_pool env now a st s) = s"
proof (cases "map_of (pool_settings s) a")
  case None
  then show ?thesis
    by (simp add: check_pool_def split: option.splits sum.splits)
next
  case (Some st')
  then have "(a, st') \<in> set (pool_settings s)"
    by (rule map_of_SomeD)
  with assms have "map_of st' ''recycle_threshold'' = None"
    by (auto simp: settings_as_stored_def)
  with Some show ?thesis
    by (simp add: check_pool_def getitem_def split: option.splits sum.splits)
qed

lemma stored_check_items:
  "settings_as_stored s \<Longrightarrow> snd (check_items env now items s) = s"
proof (induction items)
  case Nil
  then show ?case by simp
next
  case (Cons item items)
  obtain a st where item: "item = (a, st)" by (cases item)
  obtain r where c: "check_pool env now a st s = (r, s)"
    using stored_check_pool[OF Cons.prems, of env now a st]
    by (cases "check_pool env now a st s") simp
  from Cons show ?case
    by (cases r) (simp_all add: item c)
qed

lemma stored_sweep_changes_nothing:
  "settings_as_stored s \<Longrightarrow> snd (check_all_pools env s) = s"
  by (simp add: check_all_pools_def stored_check_items)

end
